theory Spec2Isabelle
  imports Main
begin

section \<open>Python values and exceptions\<close>

text \<open>
  The exceptions the modelled code can raise. \<open>HTTPError\<close> carries the status code that
  \<open>response.raise_for_status()\<close> reports; \<open>NewConnectionError\<close> is what the HTTP
  library under the database client raises when the database cannot be reached.
\<close>

datatype error =
    IndexError | KeyError | TypeError | AttributeError | ValueError
  | UnboundLocalError | EOFError | JSONDecodeError | OverflowError | HTTPError int
  | NewConnectionError

text \<open>
  Python floats are IEEE doubles; the model never computes with them. They are an opaque
  type, and every library operation on them is a parameter (see \<open>env\<close> below).
\<close>

typedecl pyfloat

text \<open>The values \<open>json.load\<close> and \<open>response.json()\<close> produce; \<open>JNull\<close> is Python's \<open>None\<close>.\<close>

datatype json =
    JNull | JBool bool | JInt int | JFloat pyfloat | JStr string
  | JList "json list" | JDict "(string \<times> json) list"

text \<open>\<open>xs[i]\<close> on a list: a negative index counts from the end, out of range raises.\<close>

definition py_index :: "'a list \<Rightarrow> int \<Rightarrow> error + 'a" where
  "py_index xs i =
     (if 0 \<le> i \<and> i < int (length xs) then Inr (xs ! nat i)
      else if i < 0 \<and> - int (length xs) \<le> i then Inr (xs ! nat (int (length xs) + i))
      else Inl IndexError)"

text \<open>\<open>x[key]\<close> with a string key.\<close>

fun py_subscript :: "json \<Rightarrow> string \<Rightarrow> error + json" where
  "py_subscript (JDict kvs) k = (case map_of kvs k of None \<Rightarrow> Inl KeyError | Some v \<Rightarrow> Inr v)"
| "py_subscript _ k = Inl TypeError"

text \<open>\<open>x[i]\<close> with an integer index; the keys of a JSON object are strings.\<close>

fun py_item :: "json \<Rightarrow> int \<Rightarrow> error + json" where
  "py_item (JList xs) i = py_index xs i"
| "py_item (JStr s) i = (case py_index s i of Inl e \<Rightarrow> Inl e | Inr c \<Rightarrow> Inr (JStr [c]))"
| "py_item (JDict kvs) i = Inl KeyError"
| "py_item _ i = Inl TypeError"

text \<open>\<open>x.get(key, default)\<close>: only a dict has the method.\<close>

fun py_get :: "json \<Rightarrow> string \<Rightarrow> json \<Rightarrow> error + json" where
  "py_get (JDict kvs) k dflt = Inr (case map_of kvs k of None \<Rightarrow> dflt | Some v \<Rightarrow> v)"
| "py_get _ k dflt = Inl AttributeError"

text \<open>Decimal rendering of an integer, as \<open>str\<close> and f-strings print it.\<close>

function str_nat :: "nat \<Rightarrow> string" where
  "str_nat n = (if n < 10 then [''0123456789'' ! n]
                else str_nat (n div 10) @ [''0123456789'' ! (n mod 10)])"
  by pat_completeness auto
termination
  by (relation "measure id") auto

definition str_int :: "int \<Rightarrow> string" where
  "str_int i = (if i < 0 then CHR ''-'' # str_nat (nat (- i)) else str_nat (nat i))"

section \<open>The date-range partitioner\<close>

text \<open>
  \<open>yield_dates_with_gap\<close> (nested in \<open>startup_update\<close>) is a generator around a \<open>while\<close>
  loop. The model collects what it yields, in order, together with the exception that ends
  it, if any. The loop need not terminate (a gap of 0 yields the first date for ever), so
  it is a partial function: \<open>None\<close> is a generator that never finishes.
\<close>

partial_function (option) yield_loop ::
  "'a list \<Rightarrow> int \<Rightarrow> int \<Rightarrow> ('a \<times> 'a) list \<Rightarrow> (('a \<times> 'a) list \<times> error option) option" where
  "yield_loop date_list gap start_index yielded =
     (if start_index < int (length date_list) - 1 then
        (let start_index = start_index + gap;
             end_index = start_index + gap;
             end_index = (if end_index > int (length date_list) - 1
                          then int (length date_list) - 1 else end_index)
         in if start_index > int (length date_list) - 1 then Some (yielded, None)
            else (case py_index date_list start_index of
                    Inl e \<Rightarrow> Some (yielded, Some e)
                  | Inr a \<Rightarrow>
                     (case py_index date_list end_index of
                        Inl e \<Rightarrow> Some (yielded, Some e)
                      | Inr b \<Rightarrow> yield_loop date_list gap start_index (yielded @ [(a, b)]))))
      else Some (yielded, None))"

declare yield_loop.simps [code]

definition yield_dates_with_gap ::
  "'a list \<Rightarrow> int \<Rightarrow> (('a \<times> 'a) list \<times> error option) option" where
  "yield_dates_with_gap date_list gap = yield_loop date_list gap (-1 * gap) []"

text \<open>Chunk \<open>i\<close> of the partition of \<open>d\<close> with span \<open>s\<close>, as section 4.3 of the specification writes it.\<close>

definition chunk :: "'a list \<Rightarrow> nat \<Rightarrow> nat \<Rightarrow> 'a \<times> 'a" where
  "chunk d s i = (d ! (i * s), d ! min ((i + 1) * s) (length d - 1))"

text \<open>The ten dates 2024-01-01 .. 2024-01-10, as \<open>startup_update\<close> formats them.\<close>

definition jan_2024 :: "string list" where
  "jan_2024 = [''2024-01-01'', ''2024-01-02'', ''2024-01-03'', ''2024-01-04'', ''2024-01-05'',
               ''2024-01-06'', ''2024-01-07'', ''2024-01-08'', ''2024-01-09'', ''2024-01-10'']"


section \<open>The world around the program\<close>

datatype level = DEBUG | INFO | WARNING | ERROR

text \<open>
  What the code reads of a \<open>requests\<close> response: \<open>json_body\<close> is what \<open>response.json()\<close>
  returns (\<open>None\<close> when the body is not JSON, and the call raises), \<open>retry_after_header\<close>
  is \<open>response.headers["Retry-After"]\<close> when the header is there.
\<close>

record response =
  status_code :: int
  response_text :: string
  json_body :: "json option"
  retry_after_header :: "string option"

text \<open>\<open>requests.request\<close> returns a response or raises \<open>ConnectionError\<close> (with its message).\<close>

datatype http_result = Response response | ConnectionError string

record request =
  req_method :: string
  req_url :: string
  req_headers :: "(string \<times> string) list"
  req_params :: "(string \<times> json) list"
  req_data :: "(string \<times> json) list"

text \<open>
  The sink accepts a batch, raises \<open>InfluxDBError\<close> (with its message), or raises an
  exception of another class.
\<close>

datatype sink_result = WriteOk | InfluxDBError string | WriteRaises error

text \<open>
  A parsed \<open>datetime\<close>: a wall-clock reading in seconds, naive or with its UTC offset.
\<close>

datatype datetime = Naive int | Aware int int

record point =
  p_measurement :: string
  p_time :: int
  p_tags :: "(string \<times> json) list"
  p_fields :: "(string \<times> json) list"

text \<open>
  Everything the program does not decide: the network (the outcome of the \<open>n\<close>-th HTTP
  call), the sink (the outcome of the \<open>n\<close>-th write), the configuration read from the
  process environment, and the library functions the model does not compute.
  \<open>timezone\<close> is \<open>self.timezone\<close>, the account's zone: the UTC offset in force at a
  wall-clock reading; \<open>system_timezone\<close> is the zone of the machine, which
  \<open>astimezone\<close> uses for a naive datetime.
\<close>

record env =
  net :: "nat \<Rightarrow> http_result"
  sink :: "nat \<Rightarrow> sink_result"
  FITBIT_LANGUAGE :: string
  CLIENT_ID :: string
  CLIENT_SECRET :: string
  DEVICENAME :: string
  b64encode :: "string \<Rightarrow> string"
  repr :: "json \<Rightarrow> string"
  int_of_str :: "string \<Rightarrow> int option"
  int_of_float :: "pyfloat \<Rightarrow> error + int"
  float_of_str :: "string \<Rightarrow> pyfloat option"
  float_of_int :: "int \<Rightarrow> pyfloat option"
  float_nonzero :: "pyfloat \<Rightarrow> bool"
  float_lt_int :: "pyfloat \<Rightarrow> int \<Rightarrow> bool"
  int_plus_float :: "int \<Rightarrow> pyfloat \<Rightarrow> pyfloat"
  float_minus_int :: "pyfloat \<Rightarrow> int \<Rightarrow> pyfloat"
  fromisoformat :: "string \<Rightarrow> datetime option"
  timezone :: "int \<Rightarrow> int"
  system_timezone :: "int \<Rightarrow> int"

text \<open>
  The state the program changes: the clock (\<open>int(time.time())\<close>), the token file (\<open>None\<close>
  when it does not exist; its content is JSON), the lines waiting at the prompt, the
  requests sent, the sleeps taken, the log, the point buffer \<open>self.points\<close>, the
  batches handed to the sink, and the working dates as \<open>start_date_str()\<close> and
  \<open>end_date_str()\<close> format them.
\<close>

record world =
  now :: int
  token_file :: "json option"
  stdin :: "string list"
  sent :: "request list"
  slept :: "int list"
  log :: "(level \<times> string) list"
  points :: "point list"
  writes :: "point list list"
  start_date_str :: string
  end_date_str :: string

type_synonym 'a result = "(error + 'a) \<times> world"

definition logging :: "level \<Rightarrow> string \<Rightarrow> world \<Rightarrow> world" where
  "logging lvl msg w = w\<lparr>log := log w @ [(lvl, msg)]\<rparr>"

text \<open>
  \<open>time.sleep(secs)\<close>: the length is first converted to nanoseconds on a signed 64-bit
  clock, which raises \<open>OverflowError\<close> beyond \<open>(2^63 - 1) div 10^9 = 9223372036\<close>
  seconds either way; then a negative length raises \<open>ValueError\<close>.
\<close>

definition time_sleep :: "int \<Rightarrow> world \<Rightarrow> unit result" where
  "time_sleep secs w =
     (if secs < - 9223372036 \<or> 9223372036 < secs then (Inl OverflowError, w)
      else if secs < 0 then (Inl ValueError, w)
      else (Inr (), w\<lparr>now := now w + secs, slept := slept w @ [secs]\<rparr>))"

definition requests_request :: "env \<Rightarrow> request \<Rightarrow> world \<Rightarrow> http_result \<times> world" where
  "requests_request env req w = (net env (length (sent w)), w\<lparr>sent := sent w @ [req]\<rparr>)"

text \<open>\<open>str(x)\<close> as an f-string prints it; floats and containers go through \<open>repr\<close>.\<close>

fun py_str :: "env \<Rightarrow> json \<Rightarrow> string" where
  "py_str env (JStr s) = s"
| "py_str env JNull = ''None''"
| "py_str env (JBool b) = (if b then ''True'' else ''False'')"
| "py_str env (JInt i) = str_int i"
| "py_str env j = repr env j"

text \<open>\<open>x < n\<close> for an integer \<open>n\<close>.\<close>

fun py_lt_int :: "env \<Rightarrow> json \<Rightarrow> int \<Rightarrow> error + bool" where
  "py_lt_int env (JInt i) n = Inr (i < n)"
| "py_lt_int env (JBool b) n = Inr ((if b then 1 else 0) < n)"
| "py_lt_int env (JFloat f) n = Inr (float_lt_int env f n)"
| "py_lt_int env _ n = Inl TypeError"

text \<open>\<open>n + x - m\<close> for integers \<open>n\<close> and \<open>m\<close>.\<close>

fun py_int_plus_minus :: "env \<Rightarrow> int \<Rightarrow> json \<Rightarrow> int \<Rightarrow> error + json" where
  "py_int_plus_minus env n (JInt i) m = Inr (JInt (n + i - m))"
| "py_int_plus_minus env n (JBool b) m = Inr (JInt (n + (if b then 1 else 0) - m))"
| "py_int_plus_minus env n (JFloat f) m = Inr (JFloat (float_minus_int env (int_plus_float env n f) m))"
| "py_int_plus_minus env n _ m = Inl TypeError"

section \<open>The API client\<close>

definition MAX_RETRIES :: nat where
  "MAX_RETRIES = 3"

definition API_URI :: string where
  "API_URI = ''https://api.fitbit.com''"

datatype 'a flow = Return 'a | Raise error | Fallthrough

text \<open>\<open>response.raise_for_status()\<close> raises for a status from 400 to 599.\<close>

definition raise_for_status :: "response \<Rightarrow> error option" where
  "raise_for_status r =
     (if 400 \<le> status_code r \<and> status_code r < 600 then Some (HTTPError (status_code r)) else None)"

text \<open>
  The \<open>if\<close>/\<open>elif\<close> chain of \<open>fitbit_data_request\<close> on a response (lines 152 to 170):
  it returns, raises, or falls through to the end of the loop body.
\<close>

definition handle_response :: "env \<Rightarrow> response \<Rightarrow> world \<Rightarrow> json flow \<times> world" where
  "handle_response env response w =
     (if status_code response = 200 then
        (case json_body response of None \<Rightarrow> (Raise JSONDecodeError, w) | Some j \<Rightarrow> (Return j, w))
      else if status_code response = 429 then
        (case retry_after_header response of
           None \<Rightarrow> (Raise KeyError, w)
         | Some s \<Rightarrow>
            (case int_of_str env s of
               None \<Rightarrow> (Raise ValueError, w)
             | Some i \<Rightarrow>
                (let retry_after = i + 15;
                     w = logging WARNING
                           (''Hit API ratelimit. Retrying in '' @ str_int retry_after @ ''s...'') w
                 in case time_sleep retry_after w of
                      (Inl e, w) \<Rightarrow> (Raise e, w)
                    | (Inr u, w) \<Rightarrow> (Fallthrough, w))))
      else if status_code response = 401 then
        (let w = logging WARNING (''Unauthorized error: '' @ response_text response) w
         in case time_sleep 30 w of
              (Inl e, w) \<Rightarrow> (Raise e, w)
            | (Inr u, w) \<Rightarrow> (Fallthrough, w))
      else if status_code response \<in> set [500, 502, 503, 504] then
        (let w = logging WARNING
                   (''Error '' @ str_int (status_code response) @ '' encountered. Retrying after 120s....'') w
         in case time_sleep 120 w of
              (Inl e, w) \<Rightarrow> (Raise e, w)
            | (Inr u, w) \<Rightarrow> (Fallthrough, w))
      else
        (let w = logging ERROR
                   (''Fitbit API request failed. Status code: '' @ str_int (status_code response)
                      @ '' '' @ response_text response) w
         in case raise_for_status response of
              Some e \<Rightarrow> (Raise e, w)
            | None \<Rightarrow> (Return JNull, w)))"

text \<open>The request \<open>requests.request\<close> is given (lines 150 and 151).\<close>

definition request_for ::
  "string \<Rightarrow> (string \<times> string) list \<Rightarrow> (string \<times> json) list \<Rightarrow> (string \<times> json) list \<Rightarrow>
   string \<Rightarrow> request" where
  "request_for endpoint hdrs params data request_type =
     \<lparr>req_method = request_type,
      req_url = API_URI @ ''/'' @ dropWhile (\<lambda>c. c = CHR ''/'') endpoint,
      req_headers = hdrs, req_params = params, req_data = data\<rparr>"

text \<open>
  The \<open>try\<close> block with its \<open>except ConnectionError\<close> (lines 149 to 173). The second
  component is the local variable \<open>response\<close> afterwards: \<open>None\<close> while it is unbound.
\<close>

definition attempt ::
  "env \<Rightarrow> string \<Rightarrow> (string \<times> string) list \<Rightarrow> (string \<times> json) list \<Rightarrow> (string \<times> json) list \<Rightarrow>
   string \<Rightarrow> response option \<Rightarrow> world \<Rightarrow> (json flow \<times> response option) \<times> world" where
  "attempt env endpoint hdrs params data request_type response w =
     (case requests_request env (request_for endpoint hdrs params data request_type) w of
        (Response r, w) \<Rightarrow>
          (case handle_response env r w of (fl, w) \<Rightarrow> ((fl, Some r), w))
      | (ConnectionError e, w) \<Rightarrow>
          ((Fallthrough, response),
           logging ERROR (''Connection error, retrying in 30 seconds: '' @ e) w))"

text \<open>The headers of lines 144 to 148, around the token \<open>get_access_token\<close> returned.\<close>

definition default_headers :: "env \<Rightarrow> json \<Rightarrow> (string \<times> string) list" where
  "default_headers env tok =
     [(''Authorization'', ''Bearer '' @ py_str env tok),
      (''Accept'', ''application/json''),
      (''Accept-Language'', FITBIT_LANGUAGE env)]"

text \<open>
  \<open>headers = headers or {...}\<close> (lines 144 to 148): the dict with the bearer token is
  built, and \<open>get_access_token\<close> called, only when \<open>headers\<close> is empty.
\<close>

definition headers_or_default ::
  "env \<Rightarrow> (world \<Rightarrow> json result) \<Rightarrow> (string \<times> string) list \<Rightarrow> world \<Rightarrow> (string \<times> string) list result" where
  "headers_or_default env get_token hdrs w =
     (if hdrs \<noteq> [] then (Inr hdrs, w)
      else (case get_token w of
              (Inl e, w) \<Rightarrow> (Inl e, w)
            | (Inr tok, w) \<Rightarrow>
               (Inr (default_headers env tok), w)))"

text \<open>
  The \<open>while\<close> loop of \<open>fitbit_data_request\<close>. \<open>get_token\<close> stands for
  \<open>self.get_access_token\<close>, which is defined after \<open>refresh_fitbit_token\<close>, which calls
  this function in turn.
\<close>

function fitbit_data_request_loop ::
  "env \<Rightarrow> (world \<Rightarrow> json result) \<Rightarrow> string \<Rightarrow> (string \<times> string) list \<Rightarrow> (string \<times> json) list \<Rightarrow>
   (string \<times> json) list \<Rightarrow> string \<Rightarrow> nat \<Rightarrow> response option \<Rightarrow> world \<Rightarrow> json result" where
  "fitbit_data_request_loop env get_token endpoint hdrs params data request_type
       retry_attempts response w =
     (if retry_attempts < MAX_RETRIES then
        (case headers_or_default env get_token hdrs w of
           (Inl e, w) \<Rightarrow> (Inl e, w)
         | (Inr hdrs, w) \<Rightarrow>
            (case attempt env endpoint hdrs params data request_type response w of
               ((Return j, response), w) \<Rightarrow> (Inr j, w)
             | ((Raise e, response), w) \<Rightarrow> (Inl e, w)
             | ((Fallthrough, response), w) \<Rightarrow>
                (case time_sleep 30 w of
                   (Inl e, w) \<Rightarrow> (Inl e, w)
                 | (Inr u, w) \<Rightarrow>
                    fitbit_data_request_loop env get_token endpoint hdrs params data request_type
                      (retry_attempts + 1) response w)))
      else
        (case response of
           None \<Rightarrow> (Inl UnboundLocalError, w)
         | Some r \<Rightarrow>
            (Inr JNull,
             logging ERROR (''Retry limit exceeded for '' @ endpoint @ ''. Please debug - '' @ response_text r) w)))"
  by pat_completeness auto
termination
  by (relation "measure (\<lambda>(env, get_token, endpoint, hdrs, params, data, request_type,
                           retry_attempts, response, w). MAX_RETRIES - retry_attempts)") auto

definition fitbit_data_request_with ::
  "(world \<Rightarrow> json result) \<Rightarrow> env \<Rightarrow> string \<Rightarrow> (string \<times> string) list \<Rightarrow> (string \<times> json) list \<Rightarrow>
   (string \<times> json) list \<Rightarrow> string \<Rightarrow> world \<Rightarrow> json result" where
  "fitbit_data_request_with get_token env endpoint hdrs params data request_type w =
     fitbit_data_request_loop env get_token endpoint hdrs params data request_type 0 None
       (logging DEBUG (''Requesting endpoint: '' @ endpoint) w)"

section \<open>The token store\<close>

text \<open>
  \<open>refresh_fitbit_token\<close> passes its own, non-empty headers to \<open>fitbit_data_request\<close>,
  so the bearer token is never asked for there (lemma \<open>headers_given\<close> below); the
  token getter it hands to the loop is never called.
\<close>

definition refresh_fitbit_token :: "env \<Rightarrow> json \<Rightarrow> world \<Rightarrow> (json \<times> json) result" where
  "refresh_fitbit_token env refresh_token w =
     (let w = logging INFO ''Attempting to refresh tokens...'' w;
          url = ''oauth2/token'';
          hdrs = [(''Authorization'',
                     ''Basic '' @ b64encode env (CLIENT_ID env @ '':'' @ CLIENT_SECRET env)),
                  (''Content-Type'', ''application/x-www-form-urlencoded'')];
          data = [(''grant_type'', JStr ''refresh_token''), (''refresh_token'', refresh_token)]
      in case fitbit_data_request_with (\<lambda>w. (Inr JNull, w)) env url hdrs [] data ''post'' w of
           (Inl e, w) \<Rightarrow> (Inl e, w)
         | (Inr json_data, w) \<Rightarrow>
            (case py_subscript json_data ''access_token'' of
               Inl e \<Rightarrow> (Inl e, w)
             | Inr access_token \<Rightarrow>
                (case py_subscript json_data ''refresh_token'' of
                   Inl e \<Rightarrow> (Inl e, w)
                 | Inr new_refresh_token \<Rightarrow>
                    (case py_subscript json_data ''expires_in'' of
                       Inl e \<Rightarrow> (Inl e, w)
                     | Inr expires_in \<Rightarrow>
                        (case py_int_plus_minus env (now w) expires_in 300 of
                           Inl e \<Rightarrow> (Inl e, w)
                         | Inr expiry_time \<Rightarrow>
                            (let tokens = JDict [(''access_token'', access_token),
                                                 (''refresh_token'', new_refresh_token),
                                                 (''expiry_timestamp'', expiry_time)];
                                 w = w\<lparr>token_file := Some tokens\<rparr>;
                                 w = logging INFO ''Refreshed fitbit token'' w
                             in (Inr (access_token, new_refresh_token), w)))))))"

text \<open>
  \<open>get_access_token\<close>. When the token file is missing, the \<open>except\<close> branch binds
  \<open>refresh_token\<close> only (\<open>input\<close> raises \<open>EOFError\<close> at the end of input), and the
  comparison that follows reads \<open>expiry_timestamp\<close>, which is unbound.
\<close>

definition get_access_token :: "env \<Rightarrow> world \<Rightarrow> json result" where
  "get_access_token env w =
     (case token_file w of
        None \<Rightarrow>
          (case stdin w of
             [] \<Rightarrow> (Inl EOFError, w)
           | refresh_token # rest \<Rightarrow> (Inl UnboundLocalError, w\<lparr>stdin := rest\<rparr>))
      | Some tokens \<Rightarrow>
          (case py_get tokens ''access_token'' JNull of
             Inl e \<Rightarrow> (Inl e, w)
           | Inr access_token \<Rightarrow>
              (case py_get tokens ''refresh_token'' JNull of
                 Inl e \<Rightarrow> (Inl e, w)
               | Inr refresh_token \<Rightarrow>
                  (case py_get tokens ''expiry_timestamp'' (JInt 0) of
                     Inl e \<Rightarrow> (Inl e, w)
                   | Inr expiry_timestamp \<Rightarrow>
                      (case py_lt_int env expiry_timestamp (now w) of
                         Inl e \<Rightarrow> (Inl e, w)
                       | Inr expired \<Rightarrow>
                          if expired then
                            (case refresh_fitbit_token env refresh_token w of
                               (Inl e, w) \<Rightarrow> (Inl e, w)
                             | (Inr (access_token, refresh_token), w) \<Rightarrow> (Inr access_token, w))
                          else (Inr access_token, w))))))"

text \<open>\<open>fitbit_data_request\<close>, with the defaults of its signature written by the caller.\<close>

definition fitbit_data_request ::
  "env \<Rightarrow> string \<Rightarrow> (string \<times> string) list \<Rightarrow> (string \<times> json) list \<Rightarrow> (string \<times> json) list \<Rightarrow>
   string \<Rightarrow> world \<Rightarrow> json result" where
  "fitbit_data_request env endpoint hdrs params data request_type w =
     fitbit_data_request_with (get_access_token env) env endpoint hdrs params data request_type w"

section \<open>The point buffer\<close>

text \<open>
  \<open>write_points\<close>. The \<open>try\<close> has one handler, \<open>except InfluxDBError\<close>: an exception
  of another class leaves the function, before \<open>self.points.clear()\<close> and with nothing
  logged.
\<close>

definition write_points :: "env \<Rightarrow> world \<Rightarrow> unit result" where
  "write_points env w =
     (if length (points w) > 0 then
        (case sink env (length (writes w)) of
           WriteOk \<Rightarrow>
             (Inr (),
              logging INFO ''Successfully updated influxdb database with new points''
                (w\<lparr>writes := writes w @ [points w], points := []\<rparr>))
         | InfluxDBError err \<Rightarrow>
             (Inr (),
              logging ERROR (''Unable to connect with influxdb database! '' @ err)
                (w\<lparr>writes := writes w @ [points w]\<rparr>))
         | WriteRaises e \<Rightarrow> (Inl e, w\<lparr>writes := writes w @ [points w]\<rparr>))
      else (Inr (), w))"

section \<open>More of Python\<close>

text \<open>Sequencing of computations that may raise.\<close>

definition then_e :: "error + 'a \<Rightarrow> ('a \<Rightarrow> error + 'b) \<Rightarrow> error + 'b" where
  "then_e x f = (case x of Inl e \<Rightarrow> Inl e | Inr a \<Rightarrow> f a)"

text \<open>\<open>x[k1][k2]...\<close>, from left to right.\<close>

fun py_path :: "json \<Rightarrow> string list \<Rightarrow> error + json" where
  "py_path j [] = Inr j"
| "py_path j (k # ks) = then_e (py_subscript j k) (\<lambda>v. py_path v ks)"

text \<open>The truth value of \<open>x\<close> in \<open>if x:\<close>.\<close>

fun py_truthy :: "env \<Rightarrow> json \<Rightarrow> bool" where
  "py_truthy env JNull = False"
| "py_truthy env (JBool b) = b"
| "py_truthy env (JInt i) = (i \<noteq> 0)"
| "py_truthy env (JFloat f) = float_nonzero env f"
| "py_truthy env (JStr s) = (s \<noteq> [])"
| "py_truthy env (JList xs) = (xs \<noteq> [])"
| "py_truthy env (JDict kvs) = (kvs \<noteq> [])"

text \<open>What \<open>for x in data\<close> runs through: a dict gives its keys, a string its characters.\<close>

fun py_iter :: "json \<Rightarrow> error + json list" where
  "py_iter (JList xs) = Inr xs"
| "py_iter (JDict kvs) = Inr (map (\<lambda>kv. JStr (fst kv)) kvs)"
| "py_iter (JStr s) = Inr (map (\<lambda>c. JStr [c]) s)"
| "py_iter _ = Inl TypeError"

text \<open>\<open>float(x)\<close> and \<open>int(x)\<close>.\<close>

fun py_float :: "env \<Rightarrow> json \<Rightarrow> error + json" where
  "py_float env (JFloat f) = Inr (JFloat f)"
| "py_float env (JInt i) =
     (case float_of_int env i of None \<Rightarrow> Inl OverflowError | Some f \<Rightarrow> Inr (JFloat f))"
| "py_float env (JBool b) =
     (case float_of_int env (if b then 1 else 0) of
        None \<Rightarrow> Inl OverflowError | Some f \<Rightarrow> Inr (JFloat f))"
| "py_float env (JStr s) =
     (case float_of_str env s of None \<Rightarrow> Inl ValueError | Some f \<Rightarrow> Inr (JFloat f))"
| "py_float env _ = Inl TypeError"

fun py_int :: "env \<Rightarrow> json \<Rightarrow> error + json" where
  "py_int env (JInt i) = Inr (JInt i)"
| "py_int env (JBool b) = Inr (JInt (if b then 1 else 0))"
| "py_int env (JFloat f) = (case int_of_float env f of Inl e \<Rightarrow> Inl e | Inr i \<Rightarrow> Inr (JInt i))"
| "py_int env (JStr s) =
     (case int_of_str env s of None \<Rightarrow> Inl ValueError | Some i \<Rightarrow> Inr (JInt i))"
| "py_int env _ = Inl TypeError"

text \<open>\<open>k in x\<close> for a string \<open>k\<close>: a key of a dict, an element of a list, a part of a string.\<close>

fun is_substring :: "string \<Rightarrow> string \<Rightarrow> bool" where
  "is_substring k [] = (k = [])"
| "is_substring k (c # cs) = (take (length k) (c # cs) = k \<or> is_substring k cs)"

fun py_in :: "string \<Rightarrow> json \<Rightarrow> error + bool" where
  "py_in k (JDict kvs) = Inr (map_of kvs k \<noteq> None)"
| "py_in k (JList xs) = Inr (JStr k \<in> set xs)"
| "py_in k (JStr s) = Inr (is_substring k s)"
| "py_in k _ = Inl TypeError"

text \<open>\<open>x or default\<close> for an optional string argument.\<close>

definition py_or :: "string option \<Rightarrow> string \<Rightarrow> string" where
  "py_or x dflt = (case x of None \<Rightarrow> dflt | Some s \<Rightarrow> if s = [] then dflt else s)"

text \<open>\<open>s.strip("Z")\<close>; only a string has the method.\<close>

fun py_strip_Z :: "json \<Rightarrow> error + json" where
  "py_strip_Z (JStr s) =
     Inr (JStr (rev (dropWhile (\<lambda>c. c = CHR ''Z'') (rev (dropWhile (\<lambda>c. c = CHR ''Z'') s)))))"
| "py_strip_Z _ = Inl AttributeError"

section \<open>Timestamps\<close>

text \<open>\<open>datetime.fromisoformat(x)\<close>: a string that parses, or an exception.\<close>

fun py_fromisoformat :: "env \<Rightarrow> json \<Rightarrow> error + datetime" where
  "py_fromisoformat env (JStr s) =
     (case fromisoformat env s of None \<Rightarrow> Inl ValueError | Some dt \<Rightarrow> Inr dt)"
| "py_fromisoformat env _ = Inl TypeError"

text \<open>
  \<open>self.timezone.localize(dt)\<close> gives a naive datetime the offset of the account's zone
  at that reading; pytz refuses a datetime that has an offset already.
\<close>

fun localize :: "env \<Rightarrow> datetime \<Rightarrow> error + datetime" where
  "localize env (Naive t) = Inr (Aware t (timezone env t))"
| "localize env (Aware t off) = Inl ValueError"

text \<open>
  \<open>dt.astimezone(pytz.utc)\<close>, as the instant it denotes: a naive datetime is read in the
  zone of the machine.
\<close>

fun astimezone_utc :: "env \<Rightarrow> datetime \<Rightarrow> int" where
  "astimezone_utc env (Aware t off) = t - off"
| "astimezone_utc env (Naive t) = t - system_timezone env t"

text \<open>
  \<open>self.timezone.localize(datetime.fromisoformat(x)).astimezone(pytz.utc).isoformat()\<close>,
  the conversion every handler but \<open>fetch_latest_activities\<close> applies.
\<close>

definition account_utc :: "env \<Rightarrow> json \<Rightarrow> error + int" where
  "account_utc env x =
     then_e (py_fromisoformat env x) (\<lambda>log_time.
     then_e (localize env log_time) (\<lambda>aware. Inr (astimezone_utc env aware)))"

section \<open>Appending points\<close>

text \<open>
  What a piece of a handler appends to \<open>self.points\<close>, in order, and the exception that
  stopped it, if any: the points appended before an exception stay in the buffer.
\<close>

type_synonym emitted = "point list \<times> error option"

definition emit_one :: "error + point \<Rightarrow> emitted" where
  "emit_one x = (case x of Inl e \<Rightarrow> ([], Some e) | Inr p \<Rightarrow> ([p], None))"

definition emit_then :: "emitted \<Rightarrow> emitted \<Rightarrow> emitted" where
  "emit_then a b = (case a of (ps, Some e) \<Rightarrow> (ps, Some e) | (ps, None) \<Rightarrow> (ps @ fst b, snd b))"

fun emit_each :: "('a \<Rightarrow> emitted) \<Rightarrow> 'a list \<Rightarrow> emitted" where
  "emit_each f [] = ([], None)"
| "emit_each f (x # xs) = emit_then (f x) (emit_each f xs)"

text \<open>The values of a dict display, evaluated from left to right.\<close>

fun collect :: "(string \<times> (error + json)) list \<Rightarrow> error + (string \<times> json) list" where
  "collect [] = Inr []"
| "collect ((k, v) # rest) =
     then_e v (\<lambda>x. then_e (collect rest) (\<lambda>xs. Inr ((k, x) # xs)))"

text \<open>
  The shape most handlers share:
  \<^verbatim>\<open>if data: (for x in data: ...append...); logging.info(ok) else: logging.error(failed)\<close>
\<close>

definition record_all ::
  "env \<Rightarrow> json \<Rightarrow> (json \<Rightarrow> emitted) \<Rightarrow> string \<Rightarrow> string \<Rightarrow> world \<Rightarrow> unit result" where
  "record_all env data body ok failed w =
     (if py_truthy env data then
        (case py_iter data of
           Inl e \<Rightarrow> (Inl e, w)
         | Inr xs \<Rightarrow>
            (case emit_each body xs of
               (ps, Some e) \<Rightarrow> (Inl e, w\<lparr>points := points w @ ps\<rparr>)
             | (ps, None) \<Rightarrow> (Inr (), logging INFO ok (w\<lparr>points := points w @ ps\<rparr>))))
      else (Inr (), logging ERROR failed w))"

section \<open>The metric handlers\<close>

definition battery_point :: "env \<Rightarrow> json \<Rightarrow> error + point" where
  "battery_point env device =
     then_e (py_subscript device ''lastSyncTime'') (\<lambda>last_sync.
     then_e (account_utc env last_sync) (\<lambda>utc_time.
     then_e (then_e (py_subscript device ''batteryLevel'') (py_float env)) (\<lambda>v.
       Inr \<lparr>p_measurement = ''DeviceBatteryLevel'', p_time = utc_time, p_tags = [],
            p_fields = [(''value'', v)]\<rparr>)))"

definition get_battery_level :: "env \<Rightarrow> world \<Rightarrow> unit result" where
  "get_battery_level env w =
     (case fitbit_data_request env ''1/user/-/devices.json'' [] [] [] ''GET'' w of
        (Inl e, w) \<Rightarrow> (Inl e, w)
      | (Inr res, w) \<Rightarrow>
         (case py_item res 0 of
            Inl e \<Rightarrow> (Inl e, w)
          | Inr device \<Rightarrow>
             if device \<noteq> JNull then
               (case battery_point env device of
                  Inl e \<Rightarrow> (Inl e, w)
                | Inr p \<Rightarrow>
                   (Inr (), logging INFO (''Recorded battery level for '' @ DEVICENAME env)
                              (w\<lparr>points := points w @ [p]\<rparr>)))
             else (Inr (), logging ERROR (''Recording battery level failed : '' @ DEVICENAME env) w)))"

definition default_measurement_list :: "(string \<times> string \<times> string) list" where
  "default_measurement_list =
     [(''heart'', ''HeartRate_Intraday'', ''1sec''), (''steps'', ''Steps_Intraday'', ''1min'')]"

definition intraday_point :: "env \<Rightarrow> string \<Rightarrow> string \<Rightarrow> json \<Rightarrow> emitted" where
  "intraday_point env date_str name v =
     emit_one
       (then_e (py_subscript v ''time'') (\<lambda>tm.
        then_e (account_utc env (JStr (date_str @ ''T'' @ py_str env tm))) (\<lambda>utc_time.
        then_e (then_e (py_subscript v ''value'') (py_int env)) (\<lambda>x.
          Inr \<lparr>p_measurement = name, p_time = utc_time,
               p_tags = [(''Device'', JStr (DEVICENAME env))],
               p_fields = [(''value'', x)]\<rparr>))))"

fun intraday_loop ::
  "env \<Rightarrow> string \<Rightarrow> (string \<times> string \<times> string) list \<Rightarrow> world \<Rightarrow> unit result" where
  "intraday_loop env date_str [] w = (Inr (), w)"
| "intraday_loop env date_str (measurement # rest) w =
     (case fitbit_data_request env
             (''1/user/-/activities/'' @ fst measurement @ ''/date/'' @ date_str @ ''/1d/''
                @ snd (snd measurement) @ ''.json'') [] [] [] ''GET'' w of
        (Inl e, w) \<Rightarrow> (Inl e, w)
      | (Inr res, w) \<Rightarrow>
         (case then_e (py_get res (''activities-'' @ fst measurement @ ''-intraday'') (JDict []))
                 (\<lambda>d. py_get d ''dataset'' JNull) of
            Inl e \<Rightarrow> (Inl e, w)
          | Inr data \<Rightarrow>
             (case record_all env data (intraday_point env date_str (fst (snd measurement)))
                     (''Recorded '' @ fst (snd measurement) @ '' intraday for date '' @ date_str)
                     (''Recording failed: '' @ fst (snd measurement) @ '' intraday for date '' @ date_str)
                     w of
                (Inl e, w) \<Rightarrow> (Inl e, w)
              | (Inr u, w) \<Rightarrow> intraday_loop env date_str rest w)))"

definition get_intraday_data_limit_1d ::
  "env \<Rightarrow> string option \<Rightarrow> (string \<times> string \<times> string) list \<Rightarrow> world \<Rightarrow> unit result" where
  "get_intraday_data_limit_1d env date_str measurement_list w =
     intraday_loop env (py_or date_str (end_date_str w)) measurement_list w"

text \<open>One statement after another: the second runs when the first raised nothing.\<close>

definition and_then :: "unit result \<Rightarrow> (world \<Rightarrow> 'a result) \<Rightarrow> 'a result" where
  "and_then r f = (case r of (Inl e, w) \<Rightarrow> (Inl e, w) | (Inr u, w) \<Rightarrow> f w)"

text \<open>The UTC time of midnight of \<open>data['dateTime']\<close> in the account's zone.\<close>

definition midnight_utc :: "env \<Rightarrow> json \<Rightarrow> error + int" where
  "midnight_utc env data =
     then_e (py_subscript data ''dateTime'') (\<lambda>d.
       account_utc env (JStr (py_str env d @ ''T00:00:00'')))"

definition device_tags :: "env \<Rightarrow> (string \<times> json) list" where
  "device_tags env = [(''Device'', JStr (DEVICENAME env))]"

subsection \<open>\<open>get_daily_data_limit_30d\<close>\<close>

definition hrv_point :: "env \<Rightarrow> json \<Rightarrow> emitted" where
  "hrv_point env data =
     emit_one
       (then_e (midnight_utc env data) (\<lambda>utc_time.
        then_e (collect [(''dailyRmssd'', py_path data [''value'', ''dailyRmssd'']),
                         (''deepRmssd'', py_path data [''value'', ''deepRmssd''])]) (\<lambda>fs.
          Inr \<lparr>p_measurement = ''HRV'', p_time = utc_time, p_tags = device_tags env,
               p_fields = fs\<rparr>)))"

definition br_point :: "env \<Rightarrow> json \<Rightarrow> emitted" where
  "br_point env data =
     emit_one
       (then_e (midnight_utc env data) (\<lambda>utc_time.
        then_e (collect [(''value'', py_path data [''value'', ''breathingRate''])]) (\<lambda>fs.
          Inr \<lparr>p_measurement = ''BreathingRate'', p_time = utc_time, p_tags = device_tags env,
               p_fields = fs\<rparr>)))"

definition skin_temp_point :: "env \<Rightarrow> json \<Rightarrow> emitted" where
  "skin_temp_point env temp_record =
     emit_one
       (then_e (midnight_utc env temp_record) (\<lambda>utc_time.
        then_e (collect [(''RelativeValue'', py_path temp_record [''value'', ''nightlyRelative''])])
          (\<lambda>fs.
          Inr \<lparr>p_measurement = ''Skin Temperature Variation'', p_time = utc_time,
               p_tags = device_tags env, p_fields = fs\<rparr>)))"

definition spo2_minute_point :: "env \<Rightarrow> json \<Rightarrow> emitted" where
  "spo2_minute_point env record =
     emit_one
       (then_e (then_e (py_subscript record ''minute'') (account_utc env)) (\<lambda>utc_time.
        then_e (collect [(''value'', then_e (py_subscript record ''value'') (py_float env))]) (\<lambda>fs.
          Inr \<lparr>p_measurement = ''SPO2_Intraday'', p_time = utc_time, p_tags = device_tags env,
               p_fields = fs\<rparr>)))"

definition spo2_day_points :: "env \<Rightarrow> json \<Rightarrow> emitted" where
  "spo2_day_points env days =
     (case then_e (py_subscript days ''minutes'') py_iter of
        Inl e \<Rightarrow> ([], Some e)
      | Inr records \<Rightarrow> emit_each (spo2_minute_point env) records)"

text \<open>
  The three blocks that read a key of the response with \<open>res.get(key)\<close> (HRV, breathing
  rate, skin temperature) have one shape.
\<close>

definition fetch_get_record ::
  "env \<Rightarrow> string \<Rightarrow> string \<Rightarrow> (json \<Rightarrow> emitted) \<Rightarrow> string \<Rightarrow> string \<Rightarrow> world \<Rightarrow> unit result" where
  "fetch_get_record env endpoint key body ok failed w =
     (case fitbit_data_request env endpoint [] [] [] ''GET'' w of
        (Inl e, w) \<Rightarrow> (Inl e, w)
      | (Inr res, w) \<Rightarrow>
         (case py_get res key JNull of
            Inl e \<Rightarrow> (Inl e, w)
          | Inr data_list \<Rightarrow> record_all env data_list body ok failed w))"

text \<open>The blocks that test the response itself (SPO2) have this one.\<close>

definition fetch_record ::
  "env \<Rightarrow> string \<Rightarrow> (string \<times> json) list \<Rightarrow> (json \<Rightarrow> error + json) \<Rightarrow> (json \<Rightarrow> emitted) \<Rightarrow>
   string \<Rightarrow> string \<Rightarrow> world \<Rightarrow> unit result" where
  "fetch_record env endpoint params items body ok failed w =
     (case fitbit_data_request env endpoint [] params [] ''GET'' w of
        (Inl e, w) \<Rightarrow> (Inl e, w)
      | (Inr res, w) \<Rightarrow>
         (if py_truthy env res then
            (case then_e (items res) py_iter of
               Inl e \<Rightarrow> (Inl e, w)
             | Inr xs \<Rightarrow>
                (case emit_each body xs of
                   (ps, Some e) \<Rightarrow> (Inl e, w\<lparr>points := points w @ ps\<rparr>)
                 | (ps, None) \<Rightarrow> (Inr (), logging INFO ok (w\<lparr>points := points w @ ps\<rparr>))))
          else (Inr (), logging ERROR failed w)))"

definition get_daily_data_limit_30d ::
  "env \<Rightarrow> string option \<Rightarrow> string option \<Rightarrow> world \<Rightarrow> unit result" where
  "get_daily_data_limit_30d env start_date end_date w =
     (let start_date = py_or start_date (start_date_str w);
          end_date = py_or end_date (end_date_str w);
          range = start_date @ '' to '' @ end_date
      in and_then
           (fetch_get_record env (''1/user/-/hrv/date/'' @ start_date @ ''/'' @ end_date @ ''.json'')
              ''hrv'' (hrv_point env)
              (''Recorded HRV for date '' @ range) (''Recording failed HRV for date '' @ range) w)
        (\<lambda>w. and_then
           (fetch_get_record env (''1/user/-/br/date/'' @ start_date @ ''/'' @ end_date @ ''.json'')
              ''br'' (br_point env)
              (''Recorded BR for date '' @ range) (''Recording failed : BR for date '' @ range) w)
        (\<lambda>w. and_then
           (fetch_get_record env
              (''1/user/-/temp/skin/date/'' @ start_date @ ''/'' @ end_date @ ''.json'')
              ''tempSkin'' (skin_temp_point env)
              (''Recorded Skin Temperature Variation for date '' @ range)
              (''Recording failed: Skin Temperature Variation for date '' @ range) w)
        (\<lambda>w. fetch_record env
              (''1/user/-/spo2/date/'' @ start_date @ ''/'' @ end_date @ ''/all.json'') [] Inr
              (spo2_day_points env)
              (''Recorded SPO2 intraday for date '' @ range)
              (''Recording failed: SPO2 intraday for date '' @ range) w))))"

subsection \<open>\<open>get_daily_data_limit_100d\<close>\<close>

definition sleep_level_mapping :: "(string \<times> int) list" where
  "sleep_level_mapping =
     [(''wake'', 3), (''rem'', 2), (''light'', 1), (''deep'', 0), (''asleep'', 1),
      (''restless'', 2), (''awake'', 3)]"

text \<open>\<open>sleep_level_mapping[x]\<close>: a list or a dict cannot be a key.\<close>

fun sleep_level :: "json \<Rightarrow> error + json" where
  "sleep_level (JStr s) =
     (case map_of sleep_level_mapping s of None \<Rightarrow> Inl KeyError | Some l \<Rightarrow> Inr (JInt l))"
| "sleep_level (JList xs) = Inl TypeError"
| "sleep_level (JDict kvs) = Inl TypeError"
| "sleep_level _ = Inl KeyError"

definition sleep_tags :: "env \<Rightarrow> json \<Rightarrow> error + (string \<times> json) list" where
  "sleep_tags env record =
     collect [(''Device'', Inr (JStr (DEVICENAME env))),
              (''isMainSleep'', py_subscript record ''isMainSleep'')]"

text \<open>The \<open>try\<close> with its bare \<open>except\<close> (lines 381 to 388): any exception selects the classic stages.\<close>

definition sleep_minutes :: "json \<Rightarrow> error + (json \<times> json \<times> json)" where
  "sleep_minutes record =
     (case then_e (py_path record [''levels'', ''summary'', ''light'', ''minutes'']) (\<lambda>l.
           then_e (py_path record [''levels'', ''summary'', ''rem'', ''minutes'']) (\<lambda>r.
           then_e (py_path record [''levels'', ''summary'', ''deep'', ''minutes'']) (\<lambda>d.
             Inr (l, r, d)))) of
        Inr x \<Rightarrow> Inr x
      | Inl e \<Rightarrow>
          then_e (py_path record [''levels'', ''summary'', ''asleep'', ''minutes'']) (\<lambda>l.
          then_e (py_path record [''levels'', ''summary'', ''restless'', ''minutes'']) (\<lambda>r.
            Inr (l, r, JInt 0))))"

definition sleep_stage_point :: "env \<Rightarrow> json \<Rightarrow> json \<Rightarrow> emitted" where
  "sleep_stage_point env record sleep_stage =
     emit_one
       (then_e (then_e (py_subscript sleep_stage ''dateTime'') (account_utc env)) (\<lambda>utc_time.
        then_e (sleep_tags env record) (\<lambda>ts.
        then_e (collect [(''level'', then_e (py_subscript sleep_stage ''level'') sleep_level),
                         (''duration_seconds'', py_subscript sleep_stage ''seconds'')]) (\<lambda>fs.
          Inr \<lparr>p_measurement = ''Sleep Levels'', p_time = utc_time, p_tags = ts,
               p_fields = fs\<rparr>))))"

definition sleep_record_points :: "env \<Rightarrow> json \<Rightarrow> emitted" where
  "sleep_record_points env record =
     emit_then
       (emit_one
          (then_e (then_e (py_subscript record ''startTime'') (account_utc env)) (\<lambda>utc_time.
           then_e (sleep_minutes record) (\<lambda>(minutesLight, minutesREM, minutesDeep).
           then_e (sleep_tags env record) (\<lambda>ts.
           then_e (collect [(''efficiency'', py_subscript record ''efficiency''),
                            (''minutesAfterWakeup'', py_subscript record ''minutesAfterWakeup''),
                            (''minutesAsleep'', py_subscript record ''minutesAsleep''),
                            (''minutesToFallAsleep'', py_subscript record ''minutesToFallAsleep''),
                            (''minutesInBed'', py_subscript record ''timeInBed''),
                            (''minutesAwake'', py_subscript record ''minutesAwake''),
                            (''minutesLight'', Inr minutesLight),
                            (''minutesREM'', Inr minutesREM),
                            (''minutesDeep'', Inr minutesDeep)]) (\<lambda>fs.
             Inr \<lparr>p_measurement = ''Sleep Summary'', p_time = utc_time, p_tags = ts,
                  p_fields = fs\<rparr>))))))
       (emit_then
          (case then_e (py_path record [''levels'', ''data'']) py_iter of
             Inl e \<Rightarrow> ([], Some e)
           | Inr stages \<Rightarrow> emit_each (sleep_stage_point env record) stages)
          (emit_one
             (then_e (then_e (py_subscript record ''endTime'') (account_utc env)) (\<lambda>utc_wake_time.
              then_e (sleep_tags env record) (\<lambda>ts.
                Inr \<lparr>p_measurement = ''Sleep Levels'', p_time = utc_wake_time, p_tags = ts,
                     p_fields = [(''level'', JInt 3), (''duration_seconds'', JNull)]\<rparr>)))))"

definition get_daily_data_limit_100d ::
  "env \<Rightarrow> string option \<Rightarrow> string option \<Rightarrow> world \<Rightarrow> unit result" where
  "get_daily_data_limit_100d env start_date end_date w =
     (let start_date = py_or start_date (start_date_str w);
          end_date = py_or end_date (end_date_str w);
          range = start_date @ '' to '' @ end_date
      in fetch_get_record env
           (''1.2/user/-/sleep/date/'' @ start_date @ ''/'' @ end_date @ ''.json'')
           ''sleep'' (sleep_record_points env)
           (''Recorded Sleep data for date '' @ range)
           (''Recording failed : Sleep data for date '' @ range) w)"

subsection \<open>\<open>get_daily_data_limit_365d\<close>\<close>

definition activity_minutes_list :: "string list" where
  "activity_minutes_list =
     [''minutesSedentary'', ''minutesLightlyActive'', ''minutesFairlyActive'', ''minutesVeryActive'']"

definition activity_others_list :: "string list" where
  "activity_others_list = [''distance'', ''calories'', ''steps'']"

definition activity_minutes_point :: "env \<Rightarrow> string \<Rightarrow> json \<Rightarrow> emitted" where
  "activity_minutes_point env activity_type data =
     emit_one
       (then_e (midnight_utc env data) (\<lambda>utc_time.
        then_e (collect [(activity_type, then_e (py_subscript data ''value'') (py_int env))]) (\<lambda>fs.
          Inr \<lparr>p_measurement = ''Activity Minutes'', p_time = utc_time, p_tags = device_tags env,
               p_fields = fs\<rparr>)))"

fun activity_minutes_loop :: "env \<Rightarrow> string \<Rightarrow> string \<Rightarrow> string list \<Rightarrow> world \<Rightarrow> unit result" where
  "activity_minutes_loop env start_date end_date [] w = (Inr (), w)"
| "activity_minutes_loop env start_date end_date (activity_type # rest) w =
     and_then
       (fetch_get_record env
          (''1/user/-/activities/tracker/'' @ activity_type @ ''/date/'' @ start_date @ ''/''
             @ end_date @ ''.json'')
          (''activities-tracker-'' @ activity_type) (activity_minutes_point env activity_type)
          (''Recorded '' @ activity_type @ '' for date '' @ start_date @ '' to '' @ end_date)
          (''Recording failed : '' @ activity_type @ '' for date '' @ start_date @ '' to '' @ end_date)
          w)
       (activity_minutes_loop env start_date end_date rest)"

definition activity_name_of :: "string \<Rightarrow> string" where
  "activity_name_of activity_type = (if activity_type = ''steps'' then ''Total Steps'' else activity_type)"

definition activity_other_point :: "env \<Rightarrow> string \<Rightarrow> json \<Rightarrow> emitted" where
  "activity_other_point env activity_type data =
     emit_one
       (then_e (midnight_utc env data) (\<lambda>utc_time.
        then_e (collect [(''value'', then_e (py_subscript data ''value'') (py_float env))]) (\<lambda>fs.
          Inr \<lparr>p_measurement = activity_name_of activity_type, p_time = utc_time,
               p_tags = device_tags env, p_fields = fs\<rparr>)))"

text \<open>
  The second loop (lines 481 to 505). The local variable \<open>activity_name\<close> is assigned in
  the body of the inner \<open>for\<close> only, and both log lines read it: it is carried from one
  activity type to the next, \<open>None\<close> while it is unbound.
\<close>

fun activity_others_loop ::
  "env \<Rightarrow> string \<Rightarrow> string \<Rightarrow> string list \<Rightarrow> string option \<Rightarrow> world \<Rightarrow> unit result" where
  "activity_others_loop env start_date end_date [] activity_name w = (Inr (), w)"
| "activity_others_loop env start_date end_date (activity_type # rest) activity_name w =
     (case fitbit_data_request env
             (''1/user/-/activities/tracker/'' @ activity_type @ ''/date/'' @ start_date @ ''/''
                @ end_date @ ''.json'') [] [] [] ''GET'' w of
        (Inl e, w) \<Rightarrow> (Inl e, w)
      | (Inr res, w) \<Rightarrow>
         (case py_get res (''activities-tracker-'' @ activity_type) JNull of
            Inl e \<Rightarrow> (Inl e, w)
          | Inr data_list \<Rightarrow>
             if py_truthy env data_list then
               (case py_iter data_list of
                  Inl e \<Rightarrow> (Inl e, w)
                | Inr xs \<Rightarrow>
                   (case emit_each (activity_other_point env activity_type) xs of
                      (ps, Some e) \<Rightarrow> (Inl e, w\<lparr>points := points w @ ps\<rparr>)
                    | (ps, None) \<Rightarrow>
                       (case (if xs = [] then activity_name
                              else Some (activity_name_of activity_type)) of
                          None \<Rightarrow> (Inl UnboundLocalError, w\<lparr>points := points w @ ps\<rparr>)
                        | Some name \<Rightarrow>
                           activity_others_loop env start_date end_date rest (Some name)
                             (logging INFO
                                (''Recorded '' @ name @ '' for date '' @ start_date @ '' to '' @ end_date)
                                (w\<lparr>points := points w @ ps\<rparr>)))))
             else
               (case activity_name of
                  None \<Rightarrow> (Inl UnboundLocalError, w)
                | Some name \<Rightarrow>
                   activity_others_loop env start_date end_date rest (Some name)
                     (logging ERROR
                        (''Recording failed: '' @ name @ '' for date '' @ start_date @ '' to '' @ end_date)
                        w))))"

definition zone_minutes :: "json \<Rightarrow> int \<Rightarrow> error + json" where
  "zone_minutes data i =
     then_e (py_path data [''value'', ''heartRateZones'']) (\<lambda>zones.
     then_e (py_item zones i) (\<lambda>zone. py_subscript zone ''minutes''))"

definition hr_zones_points :: "env \<Rightarrow> json \<Rightarrow> emitted" where
  "hr_zones_points env data =
     (case midnight_utc env data of
        Inl e \<Rightarrow> ([], Some e)
      | Inr utc_time \<Rightarrow>
         emit_then
           (emit_one
              (then_e (collect [(''Normal'', zone_minutes data 0), (''Fat Burn'', zone_minutes data 1),
                                (''Cardio'', zone_minutes data 2), (''Peak'', zone_minutes data 3)])
                 (\<lambda>fs. Inr \<lparr>p_measurement = ''HR zones'', p_time = utc_time,
                             p_tags = device_tags env, p_fields = fs\<rparr>)))
           (case then_e (py_subscript data ''value'') (py_in ''restingHeartRate'') of
              Inl e \<Rightarrow> ([], Some e)
            | Inr False \<Rightarrow> ([], None)
            | Inr True \<Rightarrow>
               emit_one
                 (then_e (collect [(''value'', py_path data [''value'', ''restingHeartRate''])])
                    (\<lambda>fs. Inr \<lparr>p_measurement = ''RestingHR'', p_time = utc_time,
                                p_tags = device_tags env, p_fields = fs\<rparr>))))"

definition record_hr_zones :: "env \<Rightarrow> string \<Rightarrow> string \<Rightarrow> world \<Rightarrow> unit result" where
  "record_hr_zones env start_date end_date w =
     (case fitbit_data_request env
             (''1/user/-/activities/heart/date/'' @ start_date @ ''/'' @ end_date @ ''.json'')
             [] [] [] ''GET'' w of
        (Inl e, w) \<Rightarrow> (Inl e, w)
      | (Inr res_activities, w) \<Rightarrow>
         (case py_subscript res_activities ''activities-heart'' of
            Inl e \<Rightarrow> (Inl e, w)
          | Inr HR_zones_data_list \<Rightarrow>
             record_all env HR_zones_data_list (hr_zones_points env)
               (''Recorded RHR and HR zones for date '' @ start_date @ '' to '' @ end_date)
               (''Recording failed : RHR and HR zones for date '' @ start_date @ '' to '' @ end_date)
               w))"

definition get_daily_data_limit_365d ::
  "env \<Rightarrow> string option \<Rightarrow> string option \<Rightarrow> world \<Rightarrow> unit result" where
  "get_daily_data_limit_365d env start_date end_date w =
     (let start_date = py_or start_date (start_date_str w);
          end_date = py_or end_date (end_date_str w)
      in and_then (activity_minutes_loop env start_date end_date activity_minutes_list w)
        (\<lambda>w. and_then (activity_others_loop env start_date end_date activity_others_list None w)
        (\<lambda>w. record_hr_zones env start_date end_date w)))"

subsection \<open>\<open>get_daily_data_limit_none\<close>\<close>

definition spo2_point :: "env \<Rightarrow> json \<Rightarrow> emitted" where
  "spo2_point env data =
     emit_one
       (then_e (midnight_utc env data) (\<lambda>utc_time.
        then_e (collect [(''avg'', py_path data [''value'', ''avg'']),
                         (''max'', py_path data [''value'', ''max'']),
                         (''min'', py_path data [''value'', ''min''])]) (\<lambda>fs.
          Inr \<lparr>p_measurement = ''SPO2'', p_time = utc_time, p_tags = device_tags env,
               p_fields = fs\<rparr>)))"

definition get_daily_data_limit_none ::
  "env \<Rightarrow> string option \<Rightarrow> string option \<Rightarrow> world \<Rightarrow> unit result" where
  "get_daily_data_limit_none env start_date end_date w =
     (let start_date = py_or start_date (start_date_str w);
          end_date = py_or end_date (end_date_str w)
      in fetch_record env (''1/user/-/spo2/date/'' @ start_date @ ''/'' @ end_date @ ''.json'') [] Inr
           (spo2_point env)
           (''Recorded Avg SPO2 for date '' @ start_date @ '' to '' @ end_date)
           (''Recording failed: Avg SPO2 for date '' @ start_date @ '' to '' @ end_date) w)"

subsection \<open>\<open>fetch_latest_activities\<close>\<close>

text \<open>The six \<open>if key in activity: fields[name] = conv(activity[key])\<close> statements, in order.\<close>

fun activity_fields ::
  "json \<Rightarrow> (string \<times> string \<times> (json \<Rightarrow> error + json)) list \<Rightarrow> error + (string \<times> json) list" where
  "activity_fields activity [] = Inr []"
| "activity_fields activity ((key, name, conv) # rest) =
     then_e (py_in key activity) (\<lambda>present.
       if present then
         then_e (then_e (py_subscript activity key) conv) (\<lambda>v.
         then_e (activity_fields activity rest) (\<lambda>fs. Inr ((name, v) # fs)))
       else activity_fields activity rest)"

text \<open>
  The timestamp of an activity record (lines 592 to 594): there is no \<open>localize\<close>; the
  parsed start time goes to \<open>astimezone\<close> as it is.
\<close>

definition activity_utc :: "env \<Rightarrow> json \<Rightarrow> error + int" where
  "activity_utc env activity =
     then_e (py_subscript activity ''startTime'') (\<lambda>s.
     then_e (py_strip_Z s) (\<lambda>s.
     then_e (py_fromisoformat env s) (\<lambda>starttime. Inr (astimezone_utc env starttime))))"

definition activity_point :: "env \<Rightarrow> json \<Rightarrow> emitted" where
  "activity_point env activity =
     emit_one
       (then_e (activity_fields activity
                  [(''activeDuration'', ''ActiveDuration'', py_int env),
                   (''averageHeartRate'', ''AverageHeartRate'', py_int env),
                   (''calories'', ''calories'', py_int env),
                   (''duration'', ''duration'', py_int env),
                   (''distance'', ''distance'', py_float env),
                   (''steps'', ''steps'', py_int env)]) (\<lambda>fs.
        then_e (activity_utc env activity) (\<lambda>utc_time.
        then_e (collect [(''ActivityName'', py_subscript activity ''activityName'')]) (\<lambda>ts.
          Inr \<lparr>p_measurement = ''Activity Records'', p_time = utc_time, p_tags = ts,
               p_fields = fs\<rparr>))))"

definition fetch_latest_activities :: "env \<Rightarrow> string option \<Rightarrow> world \<Rightarrow> unit result" where
  "fetch_latest_activities env end_date w =
     (let end_date = py_or end_date (end_date_str w)
      in fetch_record env ''1/user/-/activities/list.json''
           [(''beforeDate'', JStr end_date), (''sort'', JStr ''desc''), (''limit'', JInt 50),
            (''offset'', JInt 0)]
           (\<lambda>recent_activities_data. py_subscript recent_activities_data ''activities'')
           (activity_point env)
           (''Fetched 50 recent activities before date '' @ end_date)
           (''Fetching 50 recent activities failed: before date '' @ end_date) w)"

subsection \<open>\<open>startup_update\<close>\<close>

text \<open>
  The branch of \<open>startup_update\<close> for \<open>AUTO_DATE_RANGE\<close> (lines 77 to 88), given the
  \<open>date_list\<close> it computes: one handler after the other, with no \<open>try\<close> around them.
\<close>

fun intraday_for_dates :: "env \<Rightarrow> string list \<Rightarrow> world \<Rightarrow> unit result" where
  "intraday_for_dates env [] w = (Inr (), w)"
| "intraday_for_dates env (date_str # rest) w =
     and_then (get_intraday_data_limit_1d env (Some date_str) default_measurement_list w)
       (intraday_for_dates env rest)"

definition startup_update_auto :: "env \<Rightarrow> string list \<Rightarrow> world \<Rightarrow> unit result" where
  "startup_update_auto env date_list w =
     (let w = (if length date_list > 3 then
                 logging WARNING
                   (''Auto schedule update is not meant for more than 3 days at a time, ''
                    @ ''please consider lowering the auto_update_date_range variable ''
                    @ ''to aviod rate limit hit!'') w
               else w)
      in and_then (intraday_for_dates env date_list w)
        (\<lambda>w. and_then (get_daily_data_limit_30d env None None w)
        (\<lambda>w. and_then (get_daily_data_limit_100d env None None w)
        (\<lambda>w. and_then (get_daily_data_limit_365d env None None w)
        (\<lambda>w. and_then (get_daily_data_limit_none env None None w)
        (\<lambda>w. and_then (get_battery_level env w)
        (\<lambda>w. fetch_latest_activities env None w)))))))"

section \<open>Vocabulary of the statements\<close>

text \<open>The log entries of level \<open>INFO\<close>; only the token store writes them.\<close>

definition info_entries :: "world \<Rightarrow> (level \<times> string) list" where
  "info_entries w = filter (\<lambda>x. fst x = INFO) (log w)"

text \<open>
  The number of refresh exchanges so far: \<open>refresh_fitbit_token\<close> announces each one in
  the log, once, before it posts to the token endpoint.
\<close>

definition refreshes :: "world \<Rightarrow> nat" where
  "refreshes w = length (filter (\<lambda>x. x = (INFO, ''Attempting to refresh tokens...'')) (log w))"

text \<open>The token file as \<open>refresh_fitbit_token\<close> writes it, with an integer expiry.\<close>

definition credential :: "json \<Rightarrow> json \<Rightarrow> int \<Rightarrow> json" where
  "credential access_token refresh_token expiry =
     JDict [(''access_token'', access_token), (''refresh_token'', refresh_token),
            (''expiry_timestamp'', JInt expiry)]"

text \<open>
  The world after one attempt that is retried: the request went out, one line was logged,
  and the sleeps \<open>sleeps\<close> were taken in that order.
\<close>

definition after_retry :: "world \<Rightarrow> request \<Rightarrow> level \<times> string \<Rightarrow> int list \<Rightarrow> world" where
  "after_retry w req entry sleeps =
     w\<lparr>now := now w + sum_list sleeps, sent := sent w @ [req],
       slept := slept w @ sleeps, log := log w @ [entry]\<rparr>"

text \<open>An attempt that received an HTTP response binds the local variable \<open>response\<close>.\<close>

fun is_response :: "http_result \<Rightarrow> bool" where
  "is_response (Response r) = True"
| "is_response (ConnectionError msg) = False"

text \<open>
  The outcomes that lead to the end of the loop body, and so to another attempt: a
  connection error, 401, one of 500, 502, 503 and 504, and 429 with a \<open>Retry-After\<close>
  header that \<open>int\<close> reads and \<open>time.sleep\<close> accepts.
\<close>

definition retryable :: "env \<Rightarrow> http_result \<Rightarrow> bool" where
  "retryable env x =
     (case x of
        ConnectionError msg \<Rightarrow> True
      | Response r \<Rightarrow>
          status_code r = 401 \<or> status_code r \<in> {500, 502, 503, 504}
          \<or> (status_code r = 429 \<and>
              (case retry_after_header r of
                 None \<Rightarrow> False
               | Some s \<Rightarrow>
                  (case int_of_str env s of
                     None \<Rightarrow> False
                   | Some i \<Rightarrow> 0 \<le> i + 15 \<and> i + 15 \<le> 9223372036))))"



text \<open>From \<open>w\<close> to \<open>w'\<close> the buffer only grew, by points that satisfy \<open>P\<close>.\<close>

definition appends_only :: "(point \<Rightarrow> bool) \<Rightarrow> world \<Rightarrow> world \<Rightarrow> bool" where
  "appends_only P w w' = (\<exists>ps. points w' = points w @ ps \<and> list_all P ps)"

section \<open>Concrete inputs\<close>

text \<open>A response with status \<open>c\<close>, an empty body and no \<open>Retry-After\<close> header.\<close>

definition http_status :: "int \<Rightarrow> response" where
  "http_status c = \<lparr>status_code = c, response_text = '''', json_body = None, retry_after_header = None\<rparr>"

text \<open>A network that answers the \<open>n\<close>-th call with the \<open>n\<close>-th entry of a list, and fails to connect afterwards.\<close>

definition script :: "http_result list \<Rightarrow> nat \<Rightarrow> http_result" where
  "script xs n = (if n < length xs then xs ! n else ConnectionError ''unreachable'')"

text \<open>\<open>int\<close> on a string of decimal digits, which is all the concrete inputs give it.\<close>

definition digit_of :: "char \<Rightarrow> int option" where
  "digit_of = map_of [(CHR ''0'', 0), (CHR ''1'', 1), (CHR ''2'', 2), (CHR ''3'', 3), (CHR ''4'', 4),
                      (CHR ''5'', 5), (CHR ''6'', 6), (CHR ''7'', 7), (CHR ''8'', 8), (CHR ''9'', 9)]"

fun digits_value :: "int \<Rightarrow> string \<Rightarrow> int option" where
  "digits_value acc [] = Some acc"
| "digits_value acc (c # cs) =
     (case digit_of c of None \<Rightarrow> None | Some d \<Rightarrow> digits_value (10 * acc + d) cs)"

definition int_of_digits :: "string \<Rightarrow> int option" where
  "int_of_digits s = (if s = [] then None else digits_value 0 s)"

text \<open>
  An environment around a given network and sink. Its other library functions are
  stand-ins: the concrete inputs below never reach them.
\<close>

definition demo_env :: "(nat \<Rightarrow> http_result) \<Rightarrow> (nat \<Rightarrow> sink_result) \<Rightarrow> env" where
  "demo_env network db =
     \<lparr>net = network, sink = db,
      FITBIT_LANGUAGE = ''en_US'', CLIENT_ID = ''client'', CLIENT_SECRET = ''secret'',
      DEVICENAME = ''Charge'',
      b64encode = (\<lambda>s. s), repr = (\<lambda>j. ''?''),
      int_of_str = int_of_digits,
      int_of_float = (\<lambda>f. Inl ValueError),
      float_of_str = (\<lambda>s. None), float_of_int = (\<lambda>i. None),
      float_nonzero = (\<lambda>f. True), float_lt_int = (\<lambda>f n. False),
      int_plus_float = (\<lambda>n f. f), float_minus_int = (\<lambda>f n. f),
      fromisoformat = (\<lambda>s. None), timezone = (\<lambda>t. 0), system_timezone = (\<lambda>t. 0)\<rparr>"

definition demo_world :: "int \<Rightarrow> json option \<Rightarrow> string list \<Rightarrow> point list \<Rightarrow> world" where
  "demo_world clock file lines buffer =
     \<lparr>now = clock, token_file = file, stdin = lines, sent = [], slept = [], log = [],
      points = buffer, writes = [], start_date_str = ''2024-01-01'',
      end_date_str = ''2024-01-03''\<rparr>"

definition demo_point :: "string \<Rightarrow> point" where
  "demo_point m = \<lparr>p_measurement = m, p_time = 0, p_tags = [], p_fields = [(''value'', JInt 1)]\<rparr>"

definition token_response :: response where
  "token_response =
     \<lparr>status_code = 200, response_text = '''',
      json_body = Some (JDict [(''access_token'', JStr ''new-access''),
                               (''refresh_token'', JStr ''new-refresh''),
                               (''expires_in'', JInt 28800)]),
      retry_after_header = None\<rparr>"


definition ok_response :: response where
  "ok_response = \<lparr>status_code = 200, response_text = ''[]'', json_body = Some (JList []),
                   retry_after_header = None\<rparr>"


text \<open>A world at time 1000 whose token file holds a token that expires at 5000.\<close>

definition fresh_world :: world where
  "fresh_world = demo_world 1000 (Some (credential (JStr ''access'') (JStr ''refresh'') 5000)) [] []"

text \<open>A network that answers every call with the same response.\<close>

definition always :: "response \<Rightarrow> env" where
  "always r = demo_env (\<lambda>n. Response r) (\<lambda>n. WriteOk)"

text \<open>A network that answers 401 and then 200, and a world whose token expires at 1010.\<close>

definition unauthorized_env :: env where
  "unauthorized_env =
     demo_env (script [Response (http_status 401), Response ok_response]) (\<lambda>n. WriteOk)"

definition expiring_world :: world where
  "expiring_world =
     demo_world 1000 (Some (credential (JStr ''access'') (JStr ''refresh'') 1010)) [] []"






text \<open>A network on which no connection can be made.\<close>

definition offline :: env where
  "offline = demo_env (\<lambda>n. ConnectionError ''Connection refused'') (\<lambda>n. WriteOk)"

text \<open>A buffer of two points, and the three ways a write can end.\<close>

definition two_points :: world where
  "two_points = demo_world 0 None [] [demo_point ''a'', demo_point ''b'']"

definition sink_env :: "sink_result \<Rightarrow> env" where
  "sink_env outcome = demo_env (script []) (\<lambda>n. outcome)"

section \<open>Properties of the partitioner\<close>

lemma py_index_nat: "i < length xs \<Longrightarrow> py_index xs (int i) = Inr (xs ! i)"
  by (simp add: py_index_def)

lemma yield_loop_unfold:
  "yield_loop d (int s) (int p - int s) acc =
     (if int p - int s < int (length d) - 1 then
        if int p > int (length d) - 1 then Some (acc, None)
        else (case py_index d (int p) of
                Inl e \<Rightarrow> Some (acc, Some e)
              | Inr a \<Rightarrow>
                 (case py_index d (if int p + int s > int (length d) - 1
                                   then int (length d) - 1 else int p + int s) of
                    Inl e \<Rightarrow> Some (acc, Some e)
                  | Inr b \<Rightarrow> yield_loop d (int s) (int p) (acc @ [(a, b)])))
      else Some (acc, None))"
  by (subst yield_loop.simps) (simp add: Let_def)

lemma yield_loop_step_aux:
  assumes "1 \<le> s" and "p \<le> length d - 1" and "1 \<le> length d"
  shows "yield_loop d (int s) (int p - int s) acc =
         yield_loop d (int s) (int p) (acc @ [(d ! p, d ! min (p + s) (length d - 1))])"
proof -
  have lt: "int p - int s < int (length d) - 1" using assms by linarith
  have nb: "\<not> int p > int (length d) - 1" using assms by linarith
  have p_lt: "p < length d" using assms by linarith
  have e_lt: "min (p + s) (length d - 1) < length d" using assms by linarith
  have e_eq: "(if int p + int s > int (length d) - 1 then int (length d) - 1 else int p + int s)
              = int (min (p + s) (length d - 1))"
    using assms by (simp add: min_def) linarith
  show ?thesis
    by (subst yield_loop_unfold)
       (simp only: lt nb if_True if_False e_eq py_index_nat[OF p_lt] py_index_nat[OF e_lt] sum.case)
qed

lemma yield_loop_step:
  assumes "1 \<le> s" and "k * s \<le> length d - 1" and "1 \<le> length d"
  shows "yield_loop d (int s) (int (k * s) - int s) acc =
         yield_loop d (int s) (int (Suc k * s) - int s) (acc @ [chunk d s k])"
proof -
  have "int (Suc k * s) - int s = int (k * s)" by simp
  then show ?thesis
    using yield_loop_step_aux[OF assms, of acc] by (simp add: chunk_def add.commute)
qed

lemma yield_loop_stop:
  assumes "1 \<le> s" and "length d - 1 < p" and "1 \<le> length d"
  shows "yield_loop d (int s) (int p - int s) acc = Some (acc, None)"
proof -
  have b: "int p > int (length d) - 1" using assms by linarith
  show ?thesis
    by (subst yield_loop_unfold) (simp only: b if_True if_cancel)
qed

lemma yield_loop_closed:
  assumes "1 \<le> s" and "1 \<le> length d" and "k \<le> (length d - 1) div s + 1"
  shows "yield_loop d (int s) (int (k * s) - int s) acc =
         Some (acc @ map (chunk d s) [k..<(length d - 1) div s + 1], None)"
  using assms(3)
proof (induction "(length d - 1) div s + 1 - k" arbitrary: k acc)
  case 0
  then have k: "k = (length d - 1) div s + 1" by simp
  have "length d - 1 < s + (length d - 1) div s * s"
    using assms(1) by (intro dividend_less_div_times) simp
  then have "length d - 1 < k * s" unfolding k by (simp add: algebra_simps)
  then show ?case using yield_loop_stop[OF assms(1) _ assms(2), of "k * s" acc] k by simp
next
  case (Suc m)
  then have klt: "k < (length d - 1) div s + 1" by simp
  then have "k \<le> (length d - 1) div s" by simp
  then have "k * s \<le> (length d - 1) div s * s" by (rule mult_le_mono1)
  also have "\<dots> \<le> length d - 1" by (rule div_times_less_eq_dividend)
  finally have ks: "k * s \<le> length d - 1" .
  have m: "m = (length d - 1) div s + 1 - Suc k" using Suc.hyps(2) by simp
  have sk: "Suc k \<le> (length d - 1) div s + 1" using klt by simp
  show ?case
    using Suc.hyps(1)[OF m sk, of "acc @ [chunk d s k]"]
      yield_loop_step[OF assms(1) ks assms(2), of acc] klt
    by (simp only: upt_conv_Cons list.map append_assoc append_Cons append_Nil)
qed

lemma yield_dates_with_gap_closed:
  assumes "1 \<le> s" and "1 \<le> length d"
  shows "yield_dates_with_gap d (int s) =
         Some (map (chunk d s) [0..<(length d - 1) div s + 1], None)"
  using yield_loop_closed[OF assms, of 0 "[]"] by (simp add: yield_dates_with_gap_def)

lemma chunk_adjacent:
  assumes "1 \<le> s" and "Suc i < (length d - 1) div s + 1"
  shows "snd (chunk d s i) = fst (chunk d s (Suc i))"
proof -
  have "Suc i \<le> (length d - 1) div s" using assms(2) by simp
  then have "Suc i * s \<le> (length d - 1) div s * s" by (rule mult_le_mono1)
  also have "\<dots> \<le> length d - 1" by (rule div_times_less_eq_dividend)
  finally have "Suc i * s \<le> length d - 1" .
  then show ?thesis by (simp add: chunk_def min_def)
qed

lemma yield_dates_with_gap_jan_2024:
  "yield_dates_with_gap jan_2024 3 =
     Some ([(''2024-01-01'', ''2024-01-04''), (''2024-01-04'', ''2024-01-07''),
            (''2024-01-07'', ''2024-01-10''), (''2024-01-10'', ''2024-01-10'')], None)"
  by (simp add: yield_dates_with_gap_def yield_loop.simps py_index_def jan_2024_def)

text \<open>
  C2 (as amended). For every date list \<open>d\<close> of length \<open>n \<ge> 1\<close> and every span \<open>s \<ge> 1\<close>,
  the partitioner finishes and yields exactly the chunks
  \<open>(d[i*s], d[min((i+1)*s, n-1)])\<close> for \<open>i = 0, ..., (n-1) div s\<close>, in increasing order
  of \<open>i\<close>; the end date of each chunk is the start date of the next; a single-day range
  yields exactly one chunk; and 2024-01-01..2024-01-10 with span 3 yields the four chunks
  (01-01,01-04), (01-04,01-07), (01-07,01-10), (01-10,01-10).
\<close>

theorem yield_dates_with_gap_chunks:
  assumes "1 \<le> s" and "1 \<le> length d"
  shows "yield_dates_with_gap d (int s) =
           Some (map (chunk d s) [0..<(length d - 1) div s + 1], None)
       \<and> (\<forall>i. Suc i < (length d - 1) div s + 1 \<longrightarrow>
              snd (chunk d s i) = fst (chunk d s (Suc i)))
       \<and> (length d = 1 \<longrightarrow> yield_dates_with_gap d (int s) = Some ([(d ! 0, d ! 0)], None))
       \<and> yield_dates_with_gap jan_2024 3 =
           Some ([(''2024-01-01'', ''2024-01-04''), (''2024-01-04'', ''2024-01-07''),
                  (''2024-01-07'', ''2024-01-10''), (''2024-01-10'', ''2024-01-10'')], None)"
proof (intro conjI allI impI)
  show "yield_dates_with_gap d (int s) =
          Some (map (chunk d s) [0..<(length d - 1) div s + 1], None)"
    by (rule yield_dates_with_gap_closed[OF assms])
next
  fix i assume "Suc i < (length d - 1) div s + 1"
  then show "snd (chunk d s i) = fst (chunk d s (Suc i))"
    by (rule chunk_adjacent[OF assms(1)])
next
  assume "length d = 1"
  then show "yield_dates_with_gap d (int s) = Some ([(d ! 0, d ! 0)], None)"
    using yield_dates_with_gap_closed[OF assms] by (simp add: chunk_def)
next
  show "yield_dates_with_gap jan_2024 3 =
          Some ([(''2024-01-01'', ''2024-01-04''), (''2024-01-04'', ''2024-01-07''),
                 (''2024-01-07'', ''2024-01-10''), (''2024-01-10'', ''2024-01-10'')], None)"
    by (rule yield_dates_with_gap_jan_2024)
qed

theorem yield_dates_with_gap_chunks_witness:
  "(1::nat) \<le> 3 \<and> 1 \<le> length jan_2024
   \<and> yield_dates_with_gap jan_2024 (int 3) =
       Some (map (chunk jan_2024 3) [0..<(length jan_2024 - 1) div 3 + 1], None)
   \<and> Suc 0 < (length jan_2024 - 1) div 3 + 1
   \<and> snd (chunk jan_2024 3 0) = fst (chunk jan_2024 3 (Suc 0))"
proof -
  have s: "(1::nat) \<le> 3" by simp
  have n: "1 \<le> length jan_2024" by (simp add: jan_2024_def)
  have q: "Suc 0 < (length jan_2024 - 1) div 3 + 1" by (simp add: jan_2024_def)
  note t = yield_dates_with_gap_chunks[OF s n]
  show ?thesis using s n q t by blast
qed

text \<open>
  C2 as the specification states it fails on its own scenario: the partitioner yields a
  fourth, one-day chunk for 2024-01-01..2024-01-10 with span 3.
\<close>

theorem yield_dates_with_gap_three_chunks_counterexample:
  "yield_dates_with_gap jan_2024 3 \<noteq>
     Some ([(''2024-01-01'', ''2024-01-04''), (''2024-01-04'', ''2024-01-07''),
            (''2024-01-07'', ''2024-01-10'')], None)"
  by (simp add: yield_dates_with_gap_def yield_loop.simps py_index_def jan_2024_def)

section \<open>Properties of the API client and the token store\<close>

declare fitbit_data_request_loop.simps [simp del]

lemma refreshes_info: "refreshes w = length (filter (\<lambda>x. x = (INFO, ''Attempting to refresh tokens...'')) (info_entries w))"
  by (auto simp: refreshes_def info_entries_def intro!: arg_cong[where f=length] filter_cong)

lemma info_entries_logging:
  "info_entries (logging lvl msg w) = (if lvl = INFO then info_entries w @ [(INFO, msg)] else info_entries w)"
  by (simp add: info_entries_def logging_def)

lemma info_entries_time_sleep: "info_entries (snd (time_sleep secs w)) = info_entries w"
  by (simp add: info_entries_def time_sleep_def)

lemma info_entries_handle_response:
  "info_entries (snd (handle_response env r w)) = info_entries w"
  by (simp add: handle_response_def Let_def info_entries_logging time_sleep_def info_entries_def logging_def
      split: option.splits prod.splits sum.splits)

lemma info_entries_attempt:
  "info_entries (snd (attempt env endpoint hdrs params data request_type response w)) = info_entries w"
proof (cases "net env (length (sent w))")
  case (Response r)
  define w1 where "w1 = snd (requests_request env (request_for endpoint hdrs params data request_type) w)"
  have a: "info_entries w1 = info_entries w"
    by (simp add: w1_def info_entries_def requests_request_def)
  obtain fl w2 where hr: "handle_response env r w1 = (fl, w2)" by (metis prod.exhaust)
  have "info_entries w2 = info_entries w1"
    using info_entries_handle_response[of env r w1] hr by simp
  moreover have "attempt env endpoint hdrs params data request_type response w = ((fl, Some r), w2)"
    using Response hr by (simp add: attempt_def requests_request_def w1_def)
  ultimately show ?thesis using a by simp
next
  case (ConnectionError e)
  then show ?thesis
    by (simp add: attempt_def requests_request_def info_entries_def logging_def)
qed

lemma info_entries_loop:
  "hdrs \<noteq> [] \<Longrightarrow>
   info_entries (snd (fitbit_data_request_loop env get_token endpoint hdrs params data request_type
      retry_attempts response w)) = info_entries w"
proof (induction env get_token endpoint hdrs params data request_type retry_attempts response w
       rule: fitbit_data_request_loop.induct)
  case (1 env get_token endpoint hdrs params data request_type retry_attempts response w)
  show ?case
  proof (cases "retry_attempts < MAX_RETRIES")
    case False
    then show ?thesis
      by (subst fitbit_data_request_loop.simps) (simp add: info_entries_logging split: option.splits)
  next
    case True
    have h: "headers_or_default env get_token hdrs w = (Inr hdrs, w)"
      using "1.prems" by (simp add: headers_or_default_def)
    obtain fl r' w2 where att: "attempt env endpoint hdrs params data request_type response w = ((fl, r'), w2)"
      by (metis prod.exhaust)
    have i2: "info_entries w2 = info_entries w"
      using info_entries_attempt[of env endpoint hdrs params data request_type response w] att by simp
    show ?thesis
    proof (cases fl)
      case (Return j)
      then show ?thesis using True h att i2 by (subst fitbit_data_request_loop.simps) simp
    next
      case (Raise e)
      then show ?thesis using True h att i2 by (subst fitbit_data_request_loop.simps) simp
    next
      case Fallthrough
      obtain w3 where sl: "time_sleep 30 w2 = (Inr (), w3)" by (simp add: time_sleep_def)
      have i3: "info_entries w3 = info_entries w2"
        using info_entries_time_sleep[of 30 w2] sl by simp
      have ih: "info_entries (snd (fitbit_data_request_loop env get_token endpoint hdrs params data
                  request_type (retry_attempts + 1) r' w3)) = info_entries w3"
        using "1.IH"[OF True h[symmetric] refl att[symmetric] refl Fallthrough sl[symmetric] refl "1.prems"] .
      show ?thesis
        using True h att Fallthrough sl ih i2 i3 by (subst fitbit_data_request_loop.simps) simp
    qed
  qed
qed

lemma loop_unfold:
  "retry_attempts < MAX_RETRIES \<Longrightarrow>
   headers_or_default env get_token hdrs w = (Inr hdrs', w1) \<Longrightarrow>
   fitbit_data_request_loop env get_token endpoint hdrs params data request_type retry_attempts response w =
     (case attempt env endpoint hdrs' params data request_type response w1 of
        ((Return j, response), w) \<Rightarrow> (Inr j, w)
      | ((Raise e, response), w) \<Rightarrow> (Inl e, w)
      | ((Fallthrough, response), w) \<Rightarrow>
          (case time_sleep 30 w of
             (Inl e, w) \<Rightarrow> (Inl e, w)
           | (Inr u, w) \<Rightarrow>
              fitbit_data_request_loop env get_token endpoint hdrs' params data request_type
                (retry_attempts + 1) response w))"
  by (subst fitbit_data_request_loop.simps) simp

lemma loop_exhausted:
  "\<not> retry_attempts < MAX_RETRIES \<Longrightarrow>
   fitbit_data_request_loop env get_token endpoint hdrs params data request_type retry_attempts response w =
     (case response of
        None \<Rightarrow> (Inl UnboundLocalError, w)
      | Some r \<Rightarrow>
         (Inr JNull,
          logging ERROR (''Retry limit exceeded for '' @ endpoint @ ''. Please debug - '' @ response_text r) w))"
  by (subst fitbit_data_request_loop.simps) simp

lemma headers_given: "hdrs \<noteq> [] \<Longrightarrow> headers_or_default env get_token hdrs w = (Inr hdrs, w)"
  by (simp add: headers_or_default_def)

lemma loop_returns_200:
  assumes "retry_attempts < MAX_RETRIES"
    and "headers_or_default env get_token hdrs w = (Inr hdrs', w1)"
    and "net env (length (sent w1)) = Response r"
    and "status_code r = 200" and "json_body r = Some j"
  shows "fitbit_data_request_loop env get_token endpoint hdrs params data request_type retry_attempts response w =
         (Inr j, w1\<lparr>sent := sent w1 @ [request_for endpoint hdrs' params data request_type]\<rparr>)"
  using assms(3-5)
  by (simp add: loop_unfold[OF assms(1,2)] attempt_def requests_request_def handle_response_def)

lemma get_access_token_fresh:
  assumes "token_file w = Some (credential a r e)" and "now w \<le> e"
  shows "get_access_token env w = (Inr a, w)"
  using assms by (simp add: get_access_token_def credential_def)

lemma get_access_token_expired:
  assumes "token_file w = Some (credential a r e)" and "e < now w"
  shows "get_access_token env w =
         (case refresh_fitbit_token env r w of
            (Inl err, w') \<Rightarrow> (Inl err, w')
          | (Inr (a', r'), w') \<Rightarrow> (Inr a', w'))"
  using assms by (simp add: get_access_token_def credential_def)

lemma info_entries_token_file [simp]: "info_entries (w\<lparr>token_file := x\<rparr>) = info_entries w"
  by (simp add: info_entries_def)

lemma info_entries_refresh:
  "info_entries (snd (refresh_fitbit_token env r w)) =
     info_entries w @ [(INFO, ''Attempting to refresh tokens...'')]
   \<or> info_entries (snd (refresh_fitbit_token env r w)) =
     info_entries w @ [(INFO, ''Attempting to refresh tokens...''), (INFO, ''Refreshed fitbit token'')]"
proof -
  define w1 where "w1 = logging DEBUG (''Requesting endpoint: '' @ ''oauth2/token'')
                          (logging INFO ''Attempting to refresh tokens...'' w)"
  define hdrs where "hdrs = [(''Authorization'',
                     ''Basic '' @ b64encode env (CLIENT_ID env @ '':'' @ CLIENT_SECRET env)),
                  (''Content-Type'', ''application/x-www-form-urlencoded'')]"
  define res where "res = fitbit_data_request_loop env (\<lambda>w. (Inr JNull, w)) ''oauth2/token'' hdrs []
       [(''grant_type'', JStr ''refresh_token''), (''refresh_token'', r)] ''post'' 0 None w1"
  have i1: "info_entries w1 = info_entries w @ [(INFO, ''Attempting to refresh tokens...'')]"
    by (simp add: w1_def info_entries_logging)
  have "hdrs \<noteq> []" by (simp add: hdrs_def)
  then have i2: "info_entries (snd res) = info_entries w1"
    unfolding res_def by (rule info_entries_loop)
  obtain x w2 where res: "res = (x, w2)" by (metis prod.exhaust)
  have i3: "info_entries w2 = info_entries w @ [(INFO, ''Attempting to refresh tokens...'')]"
    using i1 i2 res by simp
  have unf: "refresh_fitbit_token env r w =
     (case res of
           (Inl e, w) \<Rightarrow> (Inl e, w)
         | (Inr json_data, w) \<Rightarrow>
            (case py_subscript json_data ''access_token'' of
               Inl e \<Rightarrow> (Inl e, w)
             | Inr access_token \<Rightarrow>
                (case py_subscript json_data ''refresh_token'' of
                   Inl e \<Rightarrow> (Inl e, w)
                 | Inr new_refresh_token \<Rightarrow>
                    (case py_subscript json_data ''expires_in'' of
                       Inl e \<Rightarrow> (Inl e, w)
                     | Inr expires_in \<Rightarrow>
                        (case py_int_plus_minus env (now w) expires_in 300 of
                           Inl e \<Rightarrow> (Inl e, w)
                         | Inr expiry_time \<Rightarrow>
                            (Inr (access_token, new_refresh_token),
                             logging INFO ''Refreshed fitbit token''
                               (w\<lparr>token_file := Some (JDict [(''access_token'', access_token),
                                                 (''refresh_token'', new_refresh_token),
                                                 (''expiry_timestamp'', expiry_time)])\<rparr>)))))))"
    unfolding refresh_fitbit_token_def fitbit_data_request_with_def res_def w1_def hdrs_def Let_def
    by simp
  show ?thesis
    unfolding unf res using i3
    by (simp add: info_entries_logging split: sum.splits)
qed

lemma refreshes_refresh: "refreshes (snd (refresh_fitbit_token env r w)) = refreshes w + 1"
  using info_entries_refresh[of env r w] by (auto simp: refreshes_info)

lemma refreshes_get_access_token_expired:
  assumes "token_file w = Some (credential a r e)" and "e < now w"
  shows "refreshes (snd (get_access_token env w)) = refreshes w + 1"
proof -
  obtain x w' where rf: "refresh_fitbit_token env r w = (x, w')" by (metis prod.exhaust)
  have "refreshes w' = refreshes w + 1" using refreshes_refresh[of env r w] rf by simp
  then show ?thesis
    by (cases x) (auto simp: get_access_token_expired[OF assms] rf)
qed

lemma refresh_success:
  assumes "net env (length (sent w)) = Response resp" and "status_code resp = 200"
    and "json_body resp = Some (JDict [(''access_token'', a'), (''refresh_token'', r'),
                                       (''expires_in'', JInt lifetime)])"
  shows "fst (refresh_fitbit_token env r w) = Inr (a', r')
       \<and> token_file (snd (refresh_fitbit_token env r w)) = Some (credential a' r' (now w + lifetime - 300))
       \<and> length (sent (snd (refresh_fitbit_token env r w))) = length (sent w) + 1"
proof -
  define w1 where "w1 = logging DEBUG (''Requesting endpoint: '' @ ''oauth2/token'')
                          (logging INFO ''Attempting to refresh tokens...'' w)"
  have s1: "sent w1 = sent w" and n1: "now w1 = now w" by (simp_all add: w1_def logging_def)
  have lt: "(0::nat) < MAX_RETRIES" by (simp add: MAX_RETRIES_def)
  have net: "net env (length (sent w1)) = Response resp" using assms(1) s1 by simp
  note l = loop_returns_200[OF lt headers_given net assms(2,3)]
  have s2: "sent (w1\<lparr>sent := x\<rparr>) = x" and n2: "now (w1\<lparr>sent := x\<rparr>) = now w" for x
    by (simp_all add: n1)
  show ?thesis
    unfolding refresh_fitbit_token_def fitbit_data_request_with_def Let_def w1_def[symmetric]
    by (simp add: l credential_def logging_def s1 n1)
qed

lemma after_retry_eq:
  "now w' = now w + sum_list sleeps \<Longrightarrow> sent w' = sent w @ [req] \<Longrightarrow>
   slept w' = slept w @ sleeps \<Longrightarrow> log w' = log w @ [entry] \<Longrightarrow>
   token_file w' = token_file w \<Longrightarrow> stdin w' = stdin w \<Longrightarrow> points w' = points w \<Longrightarrow>
   writes w' = writes w \<Longrightarrow> start_date_str w' = start_date_str w \<Longrightarrow>
   end_date_str w' = end_date_str w \<Longrightarrow> world.more w' = world.more w \<Longrightarrow>
   w' = after_retry w req entry sleeps"
  by (rule world.equality) (simp_all add: after_retry_def)

lemma attempt_429:
  assumes "net env (length (sent w1)) = Response r" and "status_code r = 429"
    and "retry_after_header r = Some s" and "int_of_str env s = Some R" and "0 \<le> R + 15"
    and "R + 15 \<le> 9223372036"
  shows "attempt env endpoint hdrs' params data request_type response w1 =
         ((Fallthrough, Some r),
          after_retry w1 (request_for endpoint hdrs' params data request_type)
            (WARNING, ''Hit API ratelimit. Retrying in '' @ str_int (R + 15) @ ''s...'') [R + 15])"
  using assms
  by (simp add: attempt_def requests_request_def handle_response_def Let_def time_sleep_def logging_def)
     (rule after_retry_eq; simp)

lemma attempt_401:
  assumes "net env (length (sent w1)) = Response r" and "status_code r = 401"
  shows "attempt env endpoint hdrs' params data request_type response w1 =
         ((Fallthrough, Some r),
          after_retry w1 (request_for endpoint hdrs' params data request_type)
            (WARNING, ''Unauthorized error: '' @ response_text r) [30])"
  using assms
  by (simp add: attempt_def requests_request_def handle_response_def Let_def time_sleep_def logging_def)
     (rule after_retry_eq; simp)

lemma attempt_5xx:
  assumes "net env (length (sent w1)) = Response r" and "status_code r \<in> {500, 502, 503, 504}"
  shows "attempt env endpoint hdrs' params data request_type response w1 =
         ((Fallthrough, Some r),
          after_retry w1 (request_for endpoint hdrs' params data request_type)
            (WARNING, ''Error '' @ str_int (status_code r) @ '' encountered. Retrying after 120s....'')
            [120])"
proof -
  have ne: "status_code r \<noteq> 200" "status_code r \<noteq> 429" "status_code r \<noteq> 401"
    using assms(2) by auto
  have m: "status_code r \<in> set [500, 502, 503, 504]" using assms(2) by simp
  have hr: "handle_response env r w' =
            (Fallthrough, snd (time_sleep 120 (logging WARNING
               (''Error '' @ str_int (status_code r) @ '' encountered. Retrying after 120s....'') w')))"
    for w'
    by (simp only: handle_response_def ne m if_True if_False Let_def) (simp add: time_sleep_def)
  show ?thesis
    using assms(1)
    by (simp add: attempt_def requests_request_def hr time_sleep_def logging_def)
       (rule after_retry_eq; simp)
qed

lemma attempt_connection_error:
  assumes "net env (length (sent w1)) = ConnectionError msg"
  shows "attempt env endpoint hdrs' params data request_type response w1 =
         ((Fallthrough, response),
          after_retry w1 (request_for endpoint hdrs' params data request_type)
            (ERROR, ''Connection error, retrying in 30 seconds: '' @ msg) [])"
  using assms
  by (simp add: attempt_def requests_request_def logging_def) (rule after_retry_eq; simp)

lemma sleep_after_retry:
  "0 \<le> secs \<Longrightarrow> secs \<le> 9223372036 \<Longrightarrow>
   time_sleep secs (after_retry w req entry sleeps) = (Inr (), after_retry w req entry (sleeps @ [secs]))"
  by (simp add: time_sleep_def) (rule after_retry_eq; simp add: after_retry_def)

lemma loop_fallthrough:
  assumes "retry_attempts < MAX_RETRIES"
    and "headers_or_default env get_token hdrs w = (Inr hdrs', w1)"
    and "attempt env endpoint hdrs' params data request_type response w1 =
           ((Fallthrough, response'), after_retry w1 req entry sleeps)"
  shows "fitbit_data_request_loop env get_token endpoint hdrs params data request_type retry_attempts response w =
         fitbit_data_request_loop env get_token endpoint hdrs' params data request_type
           (retry_attempts + 1) response' (after_retry w1 req entry (sleeps @ [30]))"
  by (simp add: loop_unfold[OF assms(1,2)] assms(3) sleep_after_retry)

lemma loop_429:
  assumes "retry_attempts < MAX_RETRIES"
    and "headers_or_default env get_token hdrs w = (Inr hdrs', w1)"
    and "net env (length (sent w1)) = Response r" and "status_code r = 429"
    and "retry_after_header r = Some s" and "int_of_str env s = Some R" and "0 \<le> R + 15"
    and "R + 15 \<le> 9223372036"
  shows "fitbit_data_request_loop env get_token endpoint hdrs params data request_type retry_attempts response w =
         fitbit_data_request_loop env get_token endpoint hdrs' params data request_type
           (retry_attempts + 1) (Some r)
           (after_retry w1 (request_for endpoint hdrs' params data request_type)
              (WARNING, ''Hit API ratelimit. Retrying in '' @ str_int (R + 15) @ ''s...'') [R + 15, 30])"
  using loop_fallthrough[OF assms(1,2) attempt_429[OF assms(3-8)]] by simp

lemma loop_401:
  assumes "retry_attempts < MAX_RETRIES"
    and "headers_or_default env get_token hdrs w = (Inr hdrs', w1)"
    and "net env (length (sent w1)) = Response r" and "status_code r = 401"
  shows "fitbit_data_request_loop env get_token endpoint hdrs params data request_type retry_attempts response w =
         fitbit_data_request_loop env get_token endpoint hdrs' params data request_type
           (retry_attempts + 1) (Some r)
           (after_retry w1 (request_for endpoint hdrs' params data request_type)
              (WARNING, ''Unauthorized error: '' @ response_text r) [30, 30])"
  using loop_fallthrough[OF assms(1,2) attempt_401[OF assms(3,4)]] by simp

lemma loop_5xx:
  assumes "retry_attempts < MAX_RETRIES"
    and "headers_or_default env get_token hdrs w = (Inr hdrs', w1)"
    and "net env (length (sent w1)) = Response r" and "status_code r \<in> {500, 502, 503, 504}"
  shows "fitbit_data_request_loop env get_token endpoint hdrs params data request_type retry_attempts response w =
         fitbit_data_request_loop env get_token endpoint hdrs' params data request_type
           (retry_attempts + 1) (Some r)
           (after_retry w1 (request_for endpoint hdrs' params data request_type)
              (WARNING, ''Error '' @ str_int (status_code r) @ '' encountered. Retrying after 120s....'')
              [120, 30])"
  using loop_fallthrough[OF assms(1,2) attempt_5xx[OF assms(3,4)]] by simp

lemma loop_connection_error:
  assumes "retry_attempts < MAX_RETRIES"
    and "headers_or_default env get_token hdrs w = (Inr hdrs', w1)"
    and "net env (length (sent w1)) = ConnectionError msg"
  shows "fitbit_data_request_loop env get_token endpoint hdrs params data request_type retry_attempts response w =
         fitbit_data_request_loop env get_token endpoint hdrs' params data request_type
           (retry_attempts + 1) response
           (after_retry w1 (request_for endpoint hdrs' params data request_type)
              (ERROR, ''Connection error, retrying in 30 seconds: '' @ msg) [30])"
  using loop_fallthrough[OF assms(1,2) attempt_connection_error[OF assms(3)]] by simp

lemma loop_other_status:
  assumes "retry_attempts < MAX_RETRIES"
    and "headers_or_default env get_token hdrs w = (Inr hdrs', w1)"
    and "net env (length (sent w1)) = Response r"
    and "status_code r \<notin> {200, 429, 401, 500, 502, 503, 504}"
  shows "fitbit_data_request_loop env get_token endpoint hdrs params data request_type retry_attempts response w =
         ((case raise_for_status r of Some e \<Rightarrow> Inl e | None \<Rightarrow> Inr JNull),
          w1\<lparr>sent := sent w1 @ [request_for endpoint hdrs' params data request_type],
             log := log w1 @ [(ERROR, ''Fitbit API request failed. Status code: ''
                                 @ str_int (status_code r) @ '' '' @ response_text r)]\<rparr>)"
  using assms(3-)
  by (simp add: loop_unfold[OF assms(1,2)] attempt_def requests_request_def handle_response_def
      Let_def logging_def split: option.splits)

lemma headers_ready:
  assumes "hdrs \<noteq> [] \<or> (token_file w = Some (credential a r e) \<and> now w \<le> e)"
  shows "\<exists>hdrs'. hdrs' \<noteq> [] \<and> headers_or_default env (get_access_token env) hdrs w = (Inr hdrs', w)"
proof (cases "hdrs = []")
  case False
  then show ?thesis by (simp add: headers_or_default_def)
next
  case True
  then have "get_access_token env w = (Inr a, w)"
    using assms get_access_token_fresh by blast
  then show ?thesis using True by (simp add: headers_or_default_def default_headers_def)
qed

lemma default_headers_fresh:
  assumes "token_file w = Some (credential a r e)" and "now w \<le> e"
  shows "headers_or_default env (get_access_token env) [] w = (Inr (default_headers env a), w)"
  by (simp add: headers_or_default_def get_access_token_fresh[OF assms])

lemma sent_after_retry [simp]: "sent (after_retry w req entry sleeps) = sent w @ [req]"
  and slept_after_retry [simp]: "slept (after_retry w req entry sleeps) = slept w @ sleeps"
  and now_after_retry [simp]: "now (after_retry w req entry sleeps) = now w + sum_list sleeps"
  and log_after_retry [simp]: "log (after_retry w req entry sleeps) = log w @ [entry]"
  and token_file_after_retry [simp]: "token_file (after_retry w req entry sleeps) = token_file w"
  by (simp_all add: after_retry_def)

lemma loop_retryable:
  assumes "retry_attempts < MAX_RETRIES" and "hdrs \<noteq> []"
    and "retryable env (net env (length (sent w)))"
  shows "\<exists>w' response'.
           fitbit_data_request_loop env get_token endpoint hdrs params data request_type retry_attempts response w =
           fitbit_data_request_loop env get_token endpoint hdrs params data request_type
             (retry_attempts + 1) response' w'
         \<and> length (sent w') = length (sent w) + 1
         \<and> (response' = None \<longrightarrow> response = None \<and> \<not> is_response (net env (length (sent w))))"
proof (cases "net env (length (sent w))")
  case (ConnectionError msg)
  show ?thesis
    using loop_connection_error[OF assms(1) headers_given[OF assms(2)] ConnectionError]
      ConnectionError
    by (intro exI conjI) (assumption, simp_all)
next
  case (Response r)
  consider (a) "status_code r = 401" | (b) "status_code r \<in> {500, 502, 503, 504}"
    | (c) s i where "status_code r = 429" "retry_after_header r = Some s"
        "int_of_str env s = Some i" "0 \<le> i + 15" "i + 15 \<le> 9223372036"
    using assms(3) Response by (auto simp: retryable_def split: option.splits)
  then show ?thesis
  proof cases
    case a
    show ?thesis
      using loop_401[OF assms(1) headers_given[OF assms(2)] Response a]
      by (intro exI conjI) (assumption, simp_all)
  next
    case b
    show ?thesis
      using loop_5xx[OF assms(1) headers_given[OF assms(2)] Response b]
      by (intro exI conjI) (assumption, simp_all)
  next
    case c
    show ?thesis
      using loop_429[OF assms(1) headers_given[OF assms(2)] Response c]
      by (intro exI conjI) (assumption, simp_all)
  qed
qed

lemma loop_three_retryable:
  assumes "hdrs \<noteq> []"
    and "retryable env (net env (length (sent w)))"
    and "retryable env (net env (length (sent w) + 1))"
    and "retryable env (net env (length (sent w) + 2))"
    and "is_response (net env (length (sent w))) \<or> is_response (net env (length (sent w) + 1))
         \<or> is_response (net env (length (sent w) + 2))"
  shows "fst (fitbit_data_request_loop env get_token endpoint hdrs params data request_type 0 None w) = Inr JNull
       \<and> length (sent (snd (fitbit_data_request_loop env get_token endpoint hdrs params data
            request_type 0 None w))) = length (sent w) + 3"
proof -
  have m0: "(0::nat) < MAX_RETRIES" and m1: "(1::nat) < MAX_RETRIES" and m2: "(2::nat) < MAX_RETRIES"
    and m3: "\<not> (3::nat) < MAX_RETRIES"
    by (simp_all add: MAX_RETRIES_def)
  obtain w1 r1 where s1:
    "fitbit_data_request_loop env get_token endpoint hdrs params data request_type 0 None w =
     fitbit_data_request_loop env get_token endpoint hdrs params data request_type 1 r1 w1"
    and l1: "length (sent w1) = length (sent w) + 1"
    and n1: "r1 = None \<longrightarrow> \<not> is_response (net env (length (sent w)))"
    using loop_retryable[OF m0 assms(1,2), of get_token endpoint params data request_type None]
    by auto
  have q1: "retryable env (net env (length (sent w1)))" using assms(3) l1 by simp
  obtain w2 r2 where s2:
    "fitbit_data_request_loop env get_token endpoint hdrs params data request_type 1 r1 w1 =
     fitbit_data_request_loop env get_token endpoint hdrs params data request_type 2 r2 w2"
    and l2: "length (sent w2) = length (sent w1) + 1"
    and n2: "r2 = None \<longrightarrow> r1 = None \<and> \<not> is_response (net env (length (sent w1)))"
    using loop_retryable[OF m1 assms(1) q1, of get_token endpoint params data request_type r1]
    by (auto simp: numeral_2_eq_2)
  have q2: "retryable env (net env (length (sent w2)))" using assms(4) l1 l2 by simp
  obtain w3 r3 where s3:
    "fitbit_data_request_loop env get_token endpoint hdrs params data request_type 2 r2 w2 =
     fitbit_data_request_loop env get_token endpoint hdrs params data request_type 3 r3 w3"
    and l3: "length (sent w3) = length (sent w2) + 1"
    and n3: "r3 = None \<longrightarrow> r2 = None \<and> \<not> is_response (net env (length (sent w2)))"
    using loop_retryable[OF m2 assms(1) q2, of get_token endpoint params data request_type r2]
    by (auto simp: numeral_3_eq_3 numeral_2_eq_2)
  have "r3 \<noteq> None" using n1 n2 n3 assms(5) l1 l2 by auto
  then obtain r where r3: "r3 = Some r" by blast
  show ?thesis
    unfolding s1 s2 s3 using l1 l2 l3 by (simp add: loop_exhausted[OF m3] r3 logging_def)
qed

lemma write_points_outcomes:
  assumes "points w \<noteq> []"
  shows "writes (snd (write_points env w)) = writes w @ [points w]
       \<and> (case sink env (length (writes w)) of
            WriteOk \<Rightarrow>
              fst (write_points env w) = Inr () \<and> points (snd (write_points env w)) = []
          | InfluxDBError err \<Rightarrow>
              fst (write_points env w) = Inr ()
              \<and> points (snd (write_points env w)) = points w
              \<and> log (snd (write_points env w)) =
                  log w @ [(ERROR, ''Unable to connect with influxdb database! '' @ err)]
          | WriteRaises e \<Rightarrow>
              fst (write_points env w) = Inl e
              \<and> points (snd (write_points env w)) = points w
              \<and> log (snd (write_points env w)) = log w)"
  using assms by (simp add: write_points_def logging_def split: sink_result.splits)

text \<open>
  C5. The claim fails on the code. A write that succeeds empties the buffer, and a write
  that raises \<open>InfluxDBError\<close> keeps the two points and logs the error; but when the
  database cannot be reached the write raises \<open>NewConnectionError\<close>, which
  \<open>except InfluxDBError\<close> does not catch: the exception leaves \<open>write_points\<close> and
  nothing is logged.
\<close>

theorem write_points_uncaught_failure:
  "points two_points = [demo_point ''a'', demo_point ''b'']
   \<and> fst (write_points (sink_env (WriteRaises NewConnectionError)) two_points)
       = Inl NewConnectionError
   \<and> points (snd (write_points (sink_env (WriteRaises NewConnectionError)) two_points))
       = [demo_point ''a'', demo_point ''b'']
   \<and> log (snd (write_points (sink_env (WriteRaises NewConnectionError)) two_points)) = []
   \<and> fst (write_points (sink_env (InfluxDBError ''down'')) two_points) = Inr ()
   \<and> points (snd (write_points (sink_env (InfluxDBError ''down'')) two_points))
       = [demo_point ''a'', demo_point ''b'']
   \<and> log (snd (write_points (sink_env (InfluxDBError ''down'')) two_points))
       = [(ERROR, ''Unable to connect with influxdb database! down'')]
   \<and> fst (write_points (sink_env WriteOk) two_points) = Inr ()
   \<and> points (snd (write_points (sink_env WriteOk) two_points)) = []"
proof -
  have ne: "points two_points \<noteq> []" and p: "points two_points = [demo_point ''a'', demo_point ''b'']"
    and l: "log two_points = []"
    by (simp_all add: two_points_def demo_world_def)
  have k: "sink (sink_env outcome) n = outcome" for outcome n
    by (simp add: sink_env_def demo_env_def)
  show ?thesis
    using write_points_outcomes[OF ne, of "sink_env (WriteRaises NewConnectionError)"]
      write_points_outcomes[OF ne, of "sink_env (InfluxDBError ''down'')"]
      write_points_outcomes[OF ne, of "sink_env WriteOk"]
    by (simp add: k p l)
qed

text \<open>
  C10. When the token file does not exist, whatever refresh token is typed at the prompt,
  \<open>get_access_token\<close> raises \<open>UnboundLocalError\<close> having sent no request, and the
  exception leaves \<open>fitbit_data_request\<close> too: the bootstrap path never returns a token.
\<close>

theorem get_access_token_without_token_file:
  assumes "token_file w = None" and "stdin w = refresh_token # rest"
  shows "get_access_token env w = (Inl UnboundLocalError, w\<lparr>stdin := rest\<rparr>)
       \<and> sent (snd (get_access_token env w)) = sent w
       \<and> fst (fitbit_data_request env endpoint [] params data request_type w) = Inl UnboundLocalError
       \<and> sent (snd (fitbit_data_request env endpoint [] params data request_type w)) = sent w"
proof -
  have g: "get_access_token env w' = (Inl UnboundLocalError, w'\<lparr>stdin := rest\<rparr>)"
    if "token_file w' = None" "stdin w' = refresh_token # rest" for w'
    using that by (simp add: get_access_token_def)
  define w0 where "w0 = logging DEBUG (''Requesting endpoint: '' @ endpoint) w"
  have w0: "token_file w0 = None" "stdin w0 = refresh_token # rest" "sent w0 = sent w"
    using assms by (simp_all add: w0_def logging_def)
  have m0: "(0::nat) < MAX_RETRIES" by (simp add: MAX_RETRIES_def)
  have h: "headers_or_default env (get_access_token env) [] w0 =
           (Inl UnboundLocalError, w0\<lparr>stdin := rest\<rparr>)"
    by (simp add: headers_or_default_def g[OF w0(1,2)])
  have "fitbit_data_request_loop env (get_access_token env) endpoint [] params data request_type
          0 None w0 = (Inl UnboundLocalError, w0\<lparr>stdin := rest\<rparr>)"
    by (subst fitbit_data_request_loop.simps) (simp add: m0 h)
  then have "fitbit_data_request env endpoint [] params data request_type w =
        (Inl UnboundLocalError, w0\<lparr>stdin := rest\<rparr>)"
    by (simp add: fitbit_data_request_def fitbit_data_request_with_def w0_def)
  then show ?thesis using g[OF assms] w0(3) by simp
qed

theorem get_access_token_without_token_file_witness:
  "token_file (demo_world 1000 None [''refresh-token''] []) = None
   \<and> stdin (demo_world 1000 None [''refresh-token''] []) = ''refresh-token'' # []
   \<and> fst (get_access_token (demo_env (script []) (\<lambda>n. WriteOk))
            (demo_world 1000 None [''refresh-token''] [])) = Inl UnboundLocalError
   \<and> sent (snd (get_access_token (demo_env (script []) (\<lambda>n. WriteOk))
            (demo_world 1000 None [''refresh-token''] []))) = []"
proof -
  let ?w = "demo_world 1000 None [''refresh-token''] []"
  have a: "token_file ?w = None" and b: "stdin ?w = ''refresh-token'' # []" and c: "sent ?w = []"
    by (simp_all add: demo_world_def)
  show ?thesis
    using a b c get_access_token_without_token_file[OF a b, of "demo_env (script []) (\<lambda>n. WriteOk)"]
    by simp
qed

text \<open>
  C6 (as amended). For every stored credential with expiry \<open>e\<close>, \<open>get_access_token\<close>
  refreshes exactly when \<open>e < now\<close>: with \<open>now \<le> e\<close> (the future, or exactly now) it
  returns the stored token and changes nothing; with \<open>e < now\<close> it performs exactly one
  refresh exchange; and a refresh answered with 200 returns the new access token and
  stores the new expiry, the time of the exchange plus the issued lifetime minus 300.
\<close>

theorem get_access_token_refreshes_when_expired:
  assumes "token_file w = Some (credential a r e)"
  shows "(now w \<le> e \<longrightarrow> get_access_token env w = (Inr a, w))
       \<and> (e < now w \<longrightarrow> refreshes (snd (get_access_token env w)) = refreshes w + 1)
       \<and> (e < now w \<and> net env (length (sent w)) = Response resp \<and> status_code resp = 200
            \<and> json_body resp = Some (JDict [(''access_token'', a'), (''refresh_token'', r'),
                                              (''expires_in'', JInt lifetime)])
          \<longrightarrow> fst (get_access_token env w) = Inr a'
              \<and> token_file (snd (get_access_token env w)) =
                  Some (credential a' r' (now w + lifetime - 300))
              \<and> length (sent (snd (get_access_token env w))) = length (sent w) + 1)"
proof (intro conjI impI)
  assume "now w \<le> e"
  then show "get_access_token env w = (Inr a, w)" by (rule get_access_token_fresh[OF assms])
next
  assume "e < now w"
  then show "refreshes (snd (get_access_token env w)) = refreshes w + 1"
    by (rule refreshes_get_access_token_expired[OF assms])
next
  assume h: "e < now w \<and> net env (length (sent w)) = Response resp \<and> status_code resp = 200
            \<and> json_body resp = Some (JDict [(''access_token'', a'), (''refresh_token'', r'),
                                              (''expires_in'', JInt lifetime)])"
  then have ex: "e < now w" and n: "net env (length (sent w)) = Response resp"
    and s: "status_code resp = 200"
    and j: "json_body resp = Some (JDict [(''access_token'', a'), (''refresh_token'', r'),
                                              (''expires_in'', JInt lifetime)])"
    by simp_all
  note rs = refresh_success[OF n s j, of r]
  obtain x w' where rf: "refresh_fitbit_token env r w = (x, w')" by (metis prod.exhaust)
  have x: "x = Inr (a', r')" using rs rf by simp
  have g: "get_access_token env w = (Inr a', w')"
    by (simp add: get_access_token_expired[OF assms ex] rf x)
  show "fst (get_access_token env w) = Inr a'" using g by simp
  show "token_file (snd (get_access_token env w)) = Some (credential a' r' (now w + lifetime - 300))"
    using g rs rf by simp
  show "length (sent (snd (get_access_token env w))) = length (sent w) + 1"
    using g rs rf by simp
qed

theorem get_access_token_refreshes_when_expired_witness:
  "token_file (demo_world 1000 (Some (credential (JStr ''old-access'') (JStr ''old-refresh'') 999)) [] [])
     = Some (credential (JStr ''old-access'') (JStr ''old-refresh'') 999)
   \<and> fst (get_access_token (demo_env (script [Response token_response]) (\<lambda>n. WriteOk))
       (demo_world 1000 (Some (credential (JStr ''old-access'') (JStr ''old-refresh'') 999)) [] []))
     = Inr (JStr ''new-access'')
   \<and> token_file (snd (get_access_token (demo_env (script [Response token_response]) (\<lambda>n. WriteOk))
       (demo_world 1000 (Some (credential (JStr ''old-access'') (JStr ''old-refresh'') 999)) [] [])))
     = Some (credential (JStr ''new-access'') (JStr ''new-refresh'') 29500)
   \<and> refreshes (snd (get_access_token (demo_env (script [Response token_response]) (\<lambda>n. WriteOk))
       (demo_world 1000 (Some (credential (JStr ''old-access'') (JStr ''old-refresh'') 999)) [] [])))
     = 1"
proof -
  let ?w = "demo_world 1000 (Some (credential (JStr ''old-access'') (JStr ''old-refresh'') 999)) [] []"
  let ?env = "demo_env (script [Response token_response]) (\<lambda>n. WriteOk)"
  have tf: "token_file ?w = Some (credential (JStr ''old-access'') (JStr ''old-refresh'') 999)"
    by (simp add: demo_world_def)
  have ex: "999 < now ?w" by (simp add: demo_world_def)
  have n: "net ?env (length (sent ?w)) = Response token_response"
    by (simp add: demo_world_def demo_env_def script_def)
  have s: "status_code token_response = 200" by (simp add: token_response_def)
  have j: "json_body token_response = Some (JDict [(''access_token'', JStr ''new-access''),
             (''refresh_token'', JStr ''new-refresh''), (''expires_in'', JInt 28800)])"
    by (simp add: token_response_def)
  have r0: "refreshes ?w = 0" by (simp add: refreshes_def demo_world_def)
  have nw: "now ?w + 28800 - 300 = 29500" by (simp add: demo_world_def)
  note t = get_access_token_refreshes_when_expired[OF tf, of ?env token_response
      "JStr ''new-access''" "JStr ''new-refresh''" 28800]
  show ?thesis using t tf ex n s j r0 nw by simp
qed

text \<open>
  C6 as the specification states it fails at the boundary: a credential that expires
  exactly now is returned as it is, with no refresh.
\<close>

theorem get_access_token_at_expiry_counterexample:
  "token_file (demo_world 1000 (Some (credential (JStr ''old-access'') (JStr ''old-refresh'') 1000)) [] [])
     = Some (credential (JStr ''old-access'') (JStr ''old-refresh'') 1000)
   \<and> now (demo_world 1000 (Some (credential (JStr ''old-access'') (JStr ''old-refresh'') 1000)) [] [])
     = 1000
   \<and> get_access_token (demo_env (script [Response token_response]) (\<lambda>n. WriteOk))
       (demo_world 1000 (Some (credential (JStr ''old-access'') (JStr ''old-refresh'') 1000)) [] [])
     = (Inr (JStr ''old-access''),
        demo_world 1000 (Some (credential (JStr ''old-access'') (JStr ''old-refresh'') 1000)) [] [])"
  by (simp add: get_access_token_def credential_def demo_world_def)




text \<open>
  C7 (as amended). A response with status 500, 502, 503 or 504, received while attempts
  remain, makes \<open>fitbit_data_request\<close> sleep 120 seconds (and the 30 of every retry) and
  try again; any other status from 500 to 599 is not retried: the call raises
  \<open>HTTPError\<close> at once, without sleeping.
\<close>

theorem fitbit_data_request_server_errors:
  assumes "retry_attempts < MAX_RETRIES"
    and "headers_or_default env get_token hdrs w = (Inr hdrs', w1)"
    and "net env (length (sent w1)) = Response r"
  shows "(status_code r \<in> {500, 502, 503, 504} \<longrightarrow>
          fitbit_data_request_loop env get_token endpoint hdrs params data request_type
            retry_attempts response w =
          fitbit_data_request_loop env get_token endpoint hdrs' params data request_type
            (retry_attempts + 1) (Some r)
            (after_retry w1 (request_for endpoint hdrs' params data request_type)
               (WARNING, ''Error '' @ str_int (status_code r) @ '' encountered. Retrying after 120s....'')
               [120, 30]))
       \<and> (500 \<le> status_code r \<and> status_code r \<le> 599 \<and> status_code r \<notin> {500, 502, 503, 504} \<longrightarrow>
          fst (fitbit_data_request_loop env get_token endpoint hdrs params data request_type
                 retry_attempts response w) = Inl (HTTPError (status_code r))
          \<and> slept (snd (fitbit_data_request_loop env get_token endpoint hdrs params data
                 request_type retry_attempts response w)) = slept w1
          \<and> length (sent (snd (fitbit_data_request_loop env get_token endpoint hdrs params data
                 request_type retry_attempts response w))) = length (sent w1) + 1)"
proof (intro conjI impI)
  assume "status_code r \<in> {500, 502, 503, 504}"
  then show "fitbit_data_request_loop env get_token endpoint hdrs params data request_type
            retry_attempts response w =
          fitbit_data_request_loop env get_token endpoint hdrs' params data request_type
            (retry_attempts + 1) (Some r)
            (after_retry w1 (request_for endpoint hdrs' params data request_type)
               (WARNING, ''Error '' @ str_int (status_code r) @ '' encountered. Retrying after 120s....'')
               [120, 30])"
    by (rule loop_5xx[OF assms])
next
  assume h: "500 \<le> status_code r \<and> status_code r \<le> 599 \<and> status_code r \<notin> {500, 502, 503, 504}"
  then have o: "status_code r \<notin> {200, 429, 401, 500, 502, 503, 504}" by auto
  have rs: "raise_for_status r = Some (HTTPError (status_code r))"
    using h by (simp add: raise_for_status_def)
  note l = loop_other_status[OF assms o, of endpoint params data request_type response]
  show "fst (fitbit_data_request_loop env get_token endpoint hdrs params data request_type
                 retry_attempts response w) = Inl (HTTPError (status_code r))"
    unfolding l by (simp add: rs)
  show "slept (snd (fitbit_data_request_loop env get_token endpoint hdrs params data
                 request_type retry_attempts response w)) = slept w1"
    unfolding l by simp
  show "length (sent (snd (fitbit_data_request_loop env get_token endpoint hdrs params data
                 request_type retry_attempts response w))) = length (sent w1) + 1"
    unfolding l by simp
qed

lemma fresh_world_fields:
  "token_file fresh_world = Some (credential (JStr ''access'') (JStr ''refresh'') 5000)"
  "now fresh_world = 1000" "slept fresh_world = []" "sent fresh_world = []" "log fresh_world = []"
  "stdin fresh_world = []"
  by (simp_all add: fresh_world_def demo_world_def)

lemma fresh_world_headers:
  "headers_or_default env (get_access_token env) [] fresh_world =
     (Inr (default_headers env (JStr ''access'')), fresh_world)"
  by (rule default_headers_fresh[OF fresh_world_fields(1)]) (simp add: fresh_world_fields)

theorem fitbit_data_request_server_errors_witness:
  "(0::nat) < MAX_RETRIES
   \<and> net (always (http_status 501)) (length (sent fresh_world)) = Response (http_status 501)
   \<and> 500 \<le> status_code (http_status 501) \<and> status_code (http_status 501) \<le> 599
   \<and> status_code (http_status 501) \<notin> {500, 502, 503, 504}
   \<and> fst (fitbit_data_request_loop (always (http_status 501)) (get_access_token (always (http_status 501)))
            ''1/user/-/devices.json'' [] [] [] ''GET'' 0 None fresh_world) = Inl (HTTPError 501)
   \<and> status_code (http_status 503) \<in> {500, 502, 503, 504}
   \<and> fitbit_data_request_loop (always (http_status 503)) (get_access_token (always (http_status 503)))
        ''1/user/-/devices.json'' [] [] [] ''GET'' 0 None fresh_world =
      fitbit_data_request_loop (always (http_status 503)) (get_access_token (always (http_status 503)))
        ''1/user/-/devices.json'' (default_headers (always (http_status 503)) (JStr ''access'')) [] []
        ''GET'' (0 + 1) (Some (http_status 503))
        (after_retry fresh_world
           (request_for ''1/user/-/devices.json''
              (default_headers (always (http_status 503)) (JStr ''access'')) [] [] ''GET'')
           (WARNING, ''Error '' @ str_int (status_code (http_status 503))
                       @ '' encountered. Retrying after 120s....'')
           [120, 30])"
proof -
  have m: "(0::nat) < MAX_RETRIES" by (simp add: MAX_RETRIES_def)
  have n: "net (always r) (length (sent fresh_world)) = Response r" for r
    by (simp add: always_def demo_env_def)
  have s1: "status_code (http_status 501) = 501" and s3: "status_code (http_status 503) = 503"
    by (simp_all add: http_status_def)
  note t1 = fitbit_data_request_server_errors[OF m fresh_world_headers n,
      of "http_status 501" "''1/user/-/devices.json''" "[]" "[]" "''GET''" None]
  note t3 = fitbit_data_request_server_errors[OF m fresh_world_headers n,
      of "http_status 503" "''1/user/-/devices.json''" "[]" "[]" "''GET''" None]
  have a: "fst (fitbit_data_request_loop (always (http_status 501)) (get_access_token (always (http_status 501)))
            ''1/user/-/devices.json'' [] [] [] ''GET'' 0 None fresh_world) = Inl (HTTPError 501)"
    using t1 s1 by simp
  have b: "fitbit_data_request_loop (always (http_status 503)) (get_access_token (always (http_status 503)))
        ''1/user/-/devices.json'' [] [] [] ''GET'' 0 None fresh_world =
      fitbit_data_request_loop (always (http_status 503)) (get_access_token (always (http_status 503)))
        ''1/user/-/devices.json'' (default_headers (always (http_status 503)) (JStr ''access'')) [] []
        ''GET'' (0 + 1) (Some (http_status 503))
        (after_retry fresh_world
           (request_for ''1/user/-/devices.json''
              (default_headers (always (http_status 503)) (JStr ''access'')) [] [] ''GET'')
           (WARNING, ''Error '' @ str_int (status_code (http_status 503))
                       @ '' encountered. Retrying after 120s....'')
           [120, 30])"
    using t3 s3 by blast
  show ?thesis
    apply (intro conjI)
    using m n a b s1 s3 by simp_all
qed

text \<open>
  C7 as the specification states it fails for 501: the call raises at the first response.
\<close>

theorem fitbit_data_request_501_counterexample:
  "status_code (http_status 501) = 501
   \<and> fst (fitbit_data_request (always (http_status 501)) ''1/user/-/devices.json'' [] [] [] ''GET''
            fresh_world) = Inl (HTTPError 501)
   \<and> slept (snd (fitbit_data_request (always (http_status 501)) ''1/user/-/devices.json'' [] [] []
            ''GET'' fresh_world)) = []"
proof -
  define w0 where "w0 = logging DEBUG (''Requesting endpoint: '' @ ''1/user/-/devices.json'') fresh_world"
  have f: "token_file w0 = Some (credential (JStr ''access'') (JStr ''refresh'') 5000)" "now w0 \<le> 5000"
    "slept w0 = []" "sent w0 = []"
    by (simp_all add: w0_def logging_def fresh_world_fields)
  have m: "(0::nat) < MAX_RETRIES" by (simp add: MAX_RETRIES_def)
  have n: "net (always (http_status 501)) (length (sent w0)) = Response (http_status 501)"
    by (simp add: always_def demo_env_def)
  have o: "status_code (http_status 501) \<notin> {200, 429, 401, 500, 502, 503, 504}"
    by (simp add: http_status_def)
  note l = loop_other_status[OF m default_headers_fresh[OF f(1,2)] n o,
      of "''1/user/-/devices.json''" "[]" "[]" "''GET''" None]
  show ?thesis
    unfolding fitbit_data_request_def fitbit_data_request_with_def w0_def[symmetric] l
    by (simp add: raise_for_status_def http_status_def f)
qed

lemma fitbit_data_request_exhausted:
  assumes "hdrs \<noteq> [] \<or> (token_file w = Some (credential a r e) \<and> now w \<le> e)"
    and "retryable env (net env (length (sent w)))"
    and "retryable env (net env (length (sent w) + 1))"
    and "retryable env (net env (length (sent w) + 2))"
    and "is_response (net env (length (sent w))) \<or> is_response (net env (length (sent w) + 1))
         \<or> is_response (net env (length (sent w) + 2))"
  shows "fst (fitbit_data_request env endpoint hdrs params data request_type w) = Inr JNull
       \<and> length (sent (snd (fitbit_data_request env endpoint hdrs params data request_type w)))
           = length (sent w) + 3"
proof -
  define w0 where "w0 = logging DEBUG (''Requesting endpoint: '' @ endpoint) w"
  have f: "token_file w0 = token_file w" "now w0 = now w" "sent w0 = sent w"
    by (simp_all add: w0_def logging_def)
  have "hdrs \<noteq> [] \<or> (token_file w0 = Some (credential a r e) \<and> now w0 \<le> e)"
    using assms(1) f by simp
  from headers_ready[OF this, of env]
  obtain hdrs' where ne: "hdrs' \<noteq> []"
    and h: "headers_or_default env (get_access_token env) hdrs w0 = (Inr hdrs', w0)" by blast
  have m: "(0::nat) < MAX_RETRIES" by (simp add: MAX_RETRIES_def)
  have same: "fitbit_data_request_loop env (get_access_token env) endpoint hdrs params data
                request_type 0 None w0 =
              fitbit_data_request_loop env (get_access_token env) endpoint hdrs' params data
                request_type 0 None w0"
    by (simp add: loop_unfold[OF m h] loop_unfold[OF m headers_given[OF ne]])
  have q: "retryable env (net env (length (sent w0)))"
    "retryable env (net env (length (sent w0) + 1))"
    "retryable env (net env (length (sent w0) + 2))"
    "is_response (net env (length (sent w0))) \<or> is_response (net env (length (sent w0) + 1))
         \<or> is_response (net env (length (sent w0) + 2))"
    using assms(2-5) f(3) by simp_all
  show ?thesis
    unfolding fitbit_data_request_def fitbit_data_request_with_def w0_def[symmetric] same
    using loop_three_retryable[OF ne q, of "get_access_token env" endpoint params data request_type]
    by (simp add: f)
qed

lemma always_500_absent_sent:
  "fst (fitbit_data_request (always (http_status 500)) endpoint [] [] [] ''GET'' fresh_world) = Inr JNull
   \<and> length (sent (snd (fitbit_data_request (always (http_status 500)) endpoint [] [] [] ''GET''
         fresh_world))) = 3"
proof -
  let ?env = "always (http_status 500)"
  have n: "net ?env k = Response (http_status 500)" for k
    by (simp add: always_def demo_env_def)
  have r: "retryable ?env (net ?env k)" for k
    unfolding n by (simp add: retryable_def http_status_def)
  have i: "is_response (net ?env k)" for k by (simp add: n)
  have c: "[] \<noteq> [] \<or> (token_file fresh_world = Some (credential (JStr ''access'') (JStr ''refresh'') 5000)
            \<and> now fresh_world \<le> 5000)"
    by (simp add: fresh_world_fields)
  have d: "is_response (net ?env (length (sent fresh_world)))
           \<or> is_response (net ?env (length (sent fresh_world) + 1))
           \<or> is_response (net ?env (length (sent fresh_world) + 2))"
    using i by blast
  show ?thesis
    using fitbit_data_request_exhausted[OF c r r r d, of endpoint "[]" "[]" "''GET''"]
    by (simp add: fresh_world_fields)
qed

text \<open>
  C3. The claim fails on the code. Three 500s in a row exhaust the attempts and
  \<open>fitbit_data_request\<close> returns \<open>None\<close>; three connection failures in a row exhaust
  them too (three requests, three sleeps of 30 seconds), but then the log line after the
  loop reads \<open>response.text\<close> with \<open>response\<close> never bound, and the call raises
  \<open>UnboundLocalError\<close>.
\<close>

theorem fitbit_data_request_connection_failures:
  "fst (fitbit_data_request offline ''1/user/-/devices.json'' [] [] [] ''GET'' fresh_world)
     = Inl UnboundLocalError
   \<and> length (sent (snd (fitbit_data_request offline ''1/user/-/devices.json'' [] [] [] ''GET''
        fresh_world))) = 3
   \<and> slept (snd (fitbit_data_request offline ''1/user/-/devices.json'' [] [] [] ''GET''
        fresh_world)) = [30, 30, 30]
   \<and> fst (fitbit_data_request (always (http_status 500)) ''1/user/-/devices.json'' [] [] []
        ''GET'' fresh_world) = Inr JNull
   \<and> length (sent (snd (fitbit_data_request (always (http_status 500)) ''1/user/-/devices.json''
        [] [] [] ''GET'' fresh_world))) = 3"
proof -
  define w0 where "w0 = logging DEBUG (''Requesting endpoint: '' @ ''1/user/-/devices.json'') fresh_world"
  define hd where "hd = default_headers offline (JStr ''access'')"
  define rq where "rq = request_for ''1/user/-/devices.json'' hd [] [] ''GET''"
  define en where "en = (ERROR, ''Connection error, retrying in 30 seconds: '' @ ''Connection refused'')"
  have f: "token_file w0 = Some (credential (JStr ''access'') (JStr ''refresh'') 5000)"
    "now w0 \<le> 5000" "sent w0 = []" "slept w0 = []"
    by (simp_all add: w0_def logging_def fresh_world_fields)
  have m0: "(0::nat) < MAX_RETRIES" and m1: "(0::nat) + 1 < MAX_RETRIES"
    and m2: "(0::nat) + 1 + 1 < MAX_RETRIES" and m3: "\<not> (0::nat) + 1 + 1 + 1 < MAX_RETRIES"
    by (simp_all add: MAX_RETRIES_def)
  have n: "net offline k = ConnectionError ''Connection refused''" for k
    by (simp add: offline_def demo_env_def)
  have h: "headers_or_default offline (get_access_token offline) [] w0 = (Inr hd, w0)"
    unfolding hd_def by (rule default_headers_fresh[OF f(1,2)])
  have ne: "hd \<noteq> []" by (simp add: hd_def default_headers_def)
  define w1 where "w1 = after_retry w0 rq en [30]"
  define w2 where "w2 = after_retry w1 rq en [30]"
  define w3 where "w3 = after_retry w2 rq en [30]"
  have s1: "fitbit_data_request_loop offline (get_access_token offline) ''1/user/-/devices.json''
              [] [] [] ''GET'' 0 None w0 =
            fitbit_data_request_loop offline (get_access_token offline) ''1/user/-/devices.json''
              hd [] [] ''GET'' (0 + 1) None w1"
    unfolding w1_def rq_def en_def by (rule loop_connection_error[OF m0 h n])
  have s2: "fitbit_data_request_loop offline (get_access_token offline) ''1/user/-/devices.json''
              hd [] [] ''GET'' (0 + 1) None w1 =
            fitbit_data_request_loop offline (get_access_token offline) ''1/user/-/devices.json''
              hd [] [] ''GET'' (0 + 1 + 1) None w2"
    unfolding w2_def rq_def en_def by (rule loop_connection_error[OF m1 headers_given[OF ne] n])
  have s3: "fitbit_data_request_loop offline (get_access_token offline) ''1/user/-/devices.json''
              hd [] [] ''GET'' (0 + 1 + 1) None w2 =
            fitbit_data_request_loop offline (get_access_token offline) ''1/user/-/devices.json''
              hd [] [] ''GET'' (0 + 1 + 1 + 1) None w3"
    unfolding w3_def rq_def en_def by (rule loop_connection_error[OF m2 headers_given[OF ne] n])
  have s4: "fitbit_data_request_loop offline (get_access_token offline) ''1/user/-/devices.json''
              hd [] [] ''GET'' (0 + 1 + 1 + 1) None w3 = (Inl UnboundLocalError, w3)"
    by (simp only: loop_exhausted[OF m3] option.case)
  have res: "fitbit_data_request offline ''1/user/-/devices.json'' [] [] [] ''GET'' fresh_world
             = (Inl UnboundLocalError, w3)"
    unfolding fitbit_data_request_def fitbit_data_request_with_def w0_def[symmetric] s1 s2 s3 s4 ..
  show ?thesis
    unfolding res using always_500_absent_sent[of "''1/user/-/devices.json''"]
    by (simp add: w3_def w2_def w1_def f)
qed

section \<open>Properties of the metric handlers\<close>




lemma appends_only_points:
  "list_all P ps \<Longrightarrow> points w' = points w @ ps \<Longrightarrow> appends_only P w w'"
  by (auto simp: appends_only_def)

lemma points_logging [simp]: "points (logging lvl msg w) = points w"
  by (simp add: logging_def)





















































lemma always_500_absent:
  "fst (fitbit_data_request (always (http_status 500)) endpoint [] [] [] ''GET'' fresh_world) = Inr JNull"
proof -
  let ?env = "always (http_status 500)"
  have n: "net ?env k = Response (http_status 500)" for k
    by (simp add: always_def demo_env_def)
  have r: "retryable ?env (net ?env k)" for k
    unfolding n by (simp add: retryable_def http_status_def)
  have i: "is_response (net ?env k)" for k by (simp add: n)
  have c: "[] \<noteq> [] \<or> (token_file fresh_world = Some (credential (JStr ''access'') (JStr ''refresh'') 5000)
            \<and> now fresh_world \<le> 5000)"
    by (simp add: fresh_world_fields)
  have d: "is_response (net ?env (length (sent fresh_world)))
           \<or> is_response (net ?env (length (sent fresh_world) + 1))
           \<or> is_response (net ?env (length (sent fresh_world) + 2))"
    using i by blast
  show ?thesis
    using fitbit_data_request_exhausted[OF c r r r d, of endpoint "[]" "[]" "''GET''"] by simp
qed

lemma startup_update_auto_aborts:
  "fst (startup_update_auto (always (http_status 500)) [''2024-01-02'', ''2024-01-03''] fresh_world)
     = Inl AttributeError
   \<and> length (sent (snd (startup_update_auto (always (http_status 500))
         [''2024-01-02'', ''2024-01-03''] fresh_world))) = 3"
proof -
  let ?env = "always (http_status 500)"
  obtain w1 where f: "fitbit_data_request ?env
      ''1/user/-/activities/heart/date/2024-01-02/1d/1sec.json'' [] [] [] ''GET'' fresh_world
      = (Inr JNull, w1)" and s: "length (sent w1) = 3"
    using always_500_absent_sent by (metis prod.collapse)
  have g: "get_intraday_data_limit_1d ?env (Some ''2024-01-02'') default_measurement_list fresh_world
           = (Inl AttributeError, w1)"
    unfolding get_intraday_data_limit_1d_def py_or_def option.case default_measurement_list_def
    by (simp add: f then_e_def)
  show ?thesis
    unfolding startup_update_auto_def Let_def
    using s by (simp add: and_then_def g)
qed

text \<open>
  C1. The claim fails on the code. With three 500s \<open>fitbit_data_request\<close> returns
  \<open>None\<close>; \<open>get_battery_level\<close> subscripts it and raises \<open>TypeError\<close>,
  \<open>get_daily_data_limit_30d\<close> calls \<open>.get\<close> on it and raises \<open>AttributeError\<close>,
  while \<open>get_daily_data_limit_none\<close> tests the result first, logs the failure and returns.
  The startup sequence stops at its first handler: after the three attempts of the first
  fetch no other request is sent.
\<close>

theorem handlers_on_absent_result:
  "fst (fitbit_data_request (always (http_status 500)) ''1/user/-/devices.json'' [] [] [] ''GET''
          fresh_world) = Inr JNull
   \<and> fst (get_battery_level (always (http_status 500)) fresh_world) = Inl TypeError
   \<and> fst (get_daily_data_limit_30d (always (http_status 500)) None None fresh_world)
       = Inl AttributeError
   \<and> fst (get_daily_data_limit_none (always (http_status 500)) None None fresh_world) = Inr ()
   \<and> fst (startup_update_auto (always (http_status 500)) [''2024-01-02'', ''2024-01-03'']
            fresh_world) = Inl AttributeError
   \<and> length (sent (snd (startup_update_auto (always (http_status 500))
            [''2024-01-02'', ''2024-01-03''] fresh_world))) = 3"
proof -
  let ?env = "always (http_status 500)"
  have a: "fst (fitbit_data_request ?env ''1/user/-/devices.json'' [] [] [] ''GET'' fresh_world)
           = Inr JNull"
    by (rule always_500_absent)
  obtain w1 where f1: "fitbit_data_request ?env ''1/user/-/devices.json'' [] [] [] ''GET'' fresh_world
                       = (Inr JNull, w1)"
    using a by (metis prod.collapse)
  have b: "fst (get_battery_level ?env fresh_world) = Inl TypeError"
    by (simp add: get_battery_level_def f1)
  have dates: "start_date_str fresh_world = ''2024-01-01''" "end_date_str fresh_world = ''2024-01-03''"
    by (simp_all add: fresh_world_def demo_world_def)
  obtain w2 where f2: "fitbit_data_request ?env
        (''1/user/-/hrv/date/'' @ ''2024-01-01'' @ ''/'' @ ''2024-01-03'' @ ''.json'') [] [] [] ''GET''
        fresh_world = (Inr JNull, w2)"
    using always_500_absent by (metis prod.collapse)
  have c: "fst (get_daily_data_limit_30d ?env None None fresh_world) = Inl AttributeError"
    unfolding get_daily_data_limit_30d_def Let_def py_or_def dates option.case
      fetch_get_record_def f2
    by (simp add: and_then_def)
  obtain w3 where f3: "fitbit_data_request ?env
        (''1/user/-/spo2/date/'' @ ''2024-01-01'' @ ''/'' @ ''2024-01-03'' @ ''.json'') [] [] [] ''GET''
        fresh_world = (Inr JNull, w3)"
    using always_500_absent by (metis prod.collapse)
  have d: "fst (get_daily_data_limit_none ?env None None fresh_world) = Inr ()"
    unfolding get_daily_data_limit_none_def Let_def py_or_def dates option.case
      fetch_record_def f3
    by simp
  show ?thesis using a b c d startup_update_auto_aborts by blast
qed

text \<open>
  C4. The claim fails on the code. After a 401 the second attempt goes out with the
  headers of the first: \<open>headers = headers or {...}\<close> finds \<open>headers\<close> set, so
  \<open>get_access_token\<close> is not called again. Here the token expires (at 1010) during the
  sleeps; at the second attempt (at 1060) it is sent once more and no refresh takes place.
\<close>

theorem fitbit_data_request_401_reuses_token:
  "fst (fitbit_data_request unauthorized_env ''1/user/-/devices.json'' [] [] [] ''GET''
          expiring_world) = Inr (JList [])
   \<and> map req_headers (sent (snd (fitbit_data_request unauthorized_env ''1/user/-/devices.json''
          [] [] [] ''GET'' expiring_world)))
       = [default_headers unauthorized_env (JStr ''access''),
          default_headers unauthorized_env (JStr ''access'')]
   \<and> now (snd (fitbit_data_request unauthorized_env ''1/user/-/devices.json'' [] [] [] ''GET''
          expiring_world)) = 1060
   \<and> token_file (snd (fitbit_data_request unauthorized_env ''1/user/-/devices.json'' [] [] []
          ''GET'' expiring_world))
       = Some (credential (JStr ''access'') (JStr ''refresh'') 1010)
   \<and> refreshes (snd (fitbit_data_request unauthorized_env ''1/user/-/devices.json'' [] [] []
          ''GET'' expiring_world)) = 0"
proof -
  define w0 where "w0 = logging DEBUG (''Requesting endpoint: '' @ ''1/user/-/devices.json'')
                          expiring_world"
  define hd where "hd = default_headers unauthorized_env (JStr ''access'')"
  define rq where "rq = request_for ''1/user/-/devices.json'' hd [] [] ''GET''"
  have f: "token_file w0 = Some (credential (JStr ''access'') (JStr ''refresh'') 1010)"
    "now w0 \<le> 1010" "now w0 = 1000" "sent w0 = []" "refreshes w0 = 0"
    by (simp_all add: w0_def logging_def expiring_world_def demo_world_def refreshes_def)
  have m0: "(0::nat) < MAX_RETRIES" and m1: "(0::nat) + 1 < MAX_RETRIES"
    by (simp_all add: MAX_RETRIES_def)
  have h: "headers_or_default unauthorized_env (get_access_token unauthorized_env) [] w0 = (Inr hd, w0)"
    unfolding hd_def by (rule default_headers_fresh[OF f(1,2)])
  have ne: "hd \<noteq> []" by (simp add: hd_def default_headers_def)
  have n0: "net unauthorized_env (length (sent w0)) = Response (http_status 401)"
    by (simp add: f unauthorized_env_def demo_env_def script_def)
  have s401: "status_code (http_status 401) = 401" by (simp add: http_status_def)
  define w1 where "w1 = after_retry w0 rq
      (WARNING, ''Unauthorized error: '' @ response_text (http_status 401)) [30, 30]"
  have s1: "fitbit_data_request_loop unauthorized_env (get_access_token unauthorized_env)
              ''1/user/-/devices.json'' [] [] [] ''GET'' 0 None w0 =
            fitbit_data_request_loop unauthorized_env (get_access_token unauthorized_env)
              ''1/user/-/devices.json'' hd [] [] ''GET'' (0 + 1) (Some (http_status 401)) w1"
    unfolding w1_def rq_def by (rule loop_401[OF m0 h n0 s401])
  have n1: "net unauthorized_env (length (sent w1)) = Response ok_response"
    by (simp add: w1_def f unauthorized_env_def demo_env_def script_def)
  have ok: "status_code ok_response = 200" "json_body ok_response = Some (JList [])"
    by (simp_all add: ok_response_def)
  have s2: "fitbit_data_request_loop unauthorized_env (get_access_token unauthorized_env)
              ''1/user/-/devices.json'' hd [] [] ''GET'' (0 + 1) (Some (http_status 401)) w1 =
            (Inr (JList []), w1\<lparr>sent := sent w1 @ [rq]\<rparr>)"
    unfolding rq_def by (rule loop_returns_200[OF m1 headers_given[OF ne] n1 ok])
  have res: "fitbit_data_request unauthorized_env ''1/user/-/devices.json'' [] [] [] ''GET''
               expiring_world = (Inr (JList []), w1\<lparr>sent := sent w1 @ [rq]\<rparr>)"
    unfolding fitbit_data_request_def fitbit_data_request_with_def w0_def[symmetric] s1 s2 ..
  have rh: "req_headers rq = hd" by (simp add: rq_def request_for_def)
  have rf: "refreshes (w1\<lparr>sent := sent w1 @ [rq]\<rparr>) = 0"
    using f(5) by (simp add: refreshes_def w1_def)
  show ?thesis
    unfolding res hd_def[symmetric]
    using rf by (simp add: w1_def f rh)
qed

end
